theory Spec2Isabelle
  imports Complex_Main
begin

section \<open>Display-state controller: App, MagicalScene, GestureController\<close>

text \<open>
  The React state of \<open>App\<close> (src/index.tsx, lines 478-482): the two \<open>useState\<close>
  cells and the \<open>handPos\<close> ref. JavaScript numbers are modelled as real numbers.
\<close>

record app_state =
  isHandOpen :: bool
  cameraEnabled :: bool
  handPos :: "real \<times> real"

text \<open>\<open>useState(true)\<close>, \<open>useState(false)\<close>, \<open>useRef({ x: 0, y: 0 })\<close>.\<close>

definition App_init :: app_state where
  "App_init = \<lparr>isHandOpen = True, cameraEnabled = False, handPos = (0, 0)\<rparr>"

text \<open>
  \<open>MagicalScene\<close> hands \<open>isHandOpen\<close> to both consumers as their \<open>isExploded\<close>
  property (lines 348-349).
\<close>

definition HeartParticles_isExploded :: "app_state \<Rightarrow> bool" where
  "HeartParticles_isExploded s = isHandOpen s"

definition Mushroom_isExploded :: "app_state \<Rightarrow> bool" where
  "Mushroom_isExploded s = isHandOpen s"

definition setHandOpen :: "bool \<Rightarrow> app_state \<Rightarrow> app_state" where
  "setHandOpen v s = s\<lparr>isHandOpen := v\<rparr>"

definition setCameraEnabled :: "bool \<Rightarrow> app_state \<Rightarrow> app_state" where
  "setCameraEnabled v s = s\<lparr>cameraEnabled := v\<rparr>"

definition handleHandMove :: "real \<times> real \<Rightarrow> app_state \<Rightarrow> app_state" where
  "handleHandMove pos s = s\<lparr>handPos := pos\<rparr>"

text \<open>
  The pointer handlers of \<open>MagicalScene\<close> (lines 330-333) exist only when the camera
  is off; with the camera on the handler object is empty and the event does nothing.
\<close>

datatype pointer_event = PointerDown | PointerUp

definition MagicalScene_handlers :: "pointer_event \<Rightarrow> app_state \<Rightarrow> app_state" where
  "MagicalScene_handlers e s =
     (if \<not> cameraEnabled s
      then (case e of PointerDown \<Rightarrow> setHandOpen False s | PointerUp \<Rightarrow> setHandOpen True s)
      else s)"

subsection \<open>The gesture loop\<close>

text \<open>
  What \<open>recognizeForVideo\<close> returns, as far as \<open>predictWebcam\<close> reads it: the
  categories per detected hand and the landmarks per detected hand.
\<close>

record category =
  categoryName :: string
  score :: real

record landmark =
  lx :: real
  ly :: real

record recognizer_result =
  gestures :: "category list list"
  landmarks :: "landmark list list"

text \<open>
  The state \<open>predictWebcam\<close> writes: the application state and the label
  \<open>gestureName\<close> of \<open>GestureController\<close>.
\<close>

record gesture_state =
  app :: app_state
  gestureName :: string

datatype js_error = TypeError

text \<open>
  Lines 441-451. \<open>results.gestures[0][0]\<close> of an empty inner array is \<open>undefined\<close>,
  and reading \<open>.categoryName\<close> of it throws; nothing has been written at that point.
\<close>

definition predict_gestures :: "recognizer_result \<Rightarrow> gesture_state \<Rightarrow> js_error + gesture_state" where
  "predict_gestures results g =
     (if length (gestures results) > 0 then
        (case hd (gestures results) of
           [] \<Rightarrow> Inl TypeError
         | c # _ \<Rightarrow>
            (if score c > 0.5 then
               (let g1 = g\<lparr>gestureName := categoryName c\<rparr> in
                if categoryName c = ''Closed_Fist'' then Inr (g1\<lparr>app := setHandOpen False (app g1)\<rparr>)
                else if categoryName c = ''Open_Palm'' then Inr (g1\<lparr>app := setHandOpen True (app g1)\<rparr>)
                else Inr g1)
             else Inr g))
      else Inr (g\<lparr>gestureName := ''None''\<rparr>))"

text \<open>
  Lines 452-460. \<open>hand[9]\<close> of a shorter array is \<open>undefined\<close> and the guard
  \<open>if (centerPoint)\<close> skips the write.
\<close>

definition predict_landmarks :: "recognizer_result \<Rightarrow> gesture_state \<Rightarrow> gesture_state" where
  "predict_landmarks results g =
     (if length (landmarks results) > 0 then
        (let hand = hd (landmarks results) in
         if 9 < length hand then
           (let centerPoint = hand ! 9;
                x = (lx centerPoint - 0.5) * 2;
                y = (ly centerPoint - 0.5) * 2
            in g\<lparr>app := handleHandMove (x, y) (app g)\<rparr>)
         else g)
      else g)"

text \<open>
  The \<open>try\<close> block of \<open>predictWebcam\<close> (lines 439-463): an exception leaves the
  block, is logged, and the state stays as it was when it was thrown.
\<close>

definition predictWebcam :: "recognizer_result \<Rightarrow> gesture_state \<Rightarrow> gesture_state" where
  "predictWebcam results g =
     (case predict_gestures results g of
        Inl e \<Rightarrow> g
      | Inr g1 \<Rightarrow> predict_landmarks results g1)"

subsection \<open>The look-around rig\<close>

text \<open>\<open>THREE.MathUtils.lerp(x, y, t)\<close> of three.js: \<open>(1 - t) * x + t * y\<close>.\<close>

definition MathUtils_lerp :: "real \<Rightarrow> real \<Rightarrow> real \<Rightarrow> real" where
  "MathUtils_lerp x y t = (1 - t) * x + t * y"

record euler =
  rotation_x :: real
  rotation_y :: real

text \<open>
  The frame callback of \<open>Rig\<close> (lines 311-324). \<open>group_current\<close> is the rotation of the
  group behind \<open>group.current\<close>, \<open>None\<close> while the ref is not mounted;
  \<open>pointer\<close> is \<open>state.pointer\<close>.
\<close>

definition Rig_frame :: "bool \<Rightarrow> real \<times> real \<Rightarrow> real \<times> real \<Rightarrow> euler option \<Rightarrow> euler option" where
  "Rig_frame camEnabled hand pointer group_current =
     (case group_current of
        None \<Rightarrow> None
      | Some rot \<Rightarrow>
         (let targetX = (if camEnabled then fst hand * 3.0 else fst pointer);
              targetY = (if camEnabled then snd hand * 3.0 else snd pointer);
              rot1 = rot\<lparr>rotation_y := MathUtils_lerp (rotation_y rot) (targetX / 2) 0.1\<rparr>;
              rot2 = rot1\<lparr>rotation_x := MathUtils_lerp (rotation_x rot1) (- targetY / 2) 0.1\<rparr>
          in Some rot2))"

text \<open>
  The clamp that the specification recommends for the look vector, written from its
  words for comparison with the code, which has none.
\<close>

definition clamp_unit :: "real \<Rightarrow> real" where
  "clamp_unit v = max (- 1) (min 1 v)"

section \<open>three.js values\<close>

text \<open>
  \<open>THREE.Vector3\<close>, \<open>THREE.Quaternion\<close> and \<open>THREE.Color\<close> as values, and the
  methods of three.js that the particle system calls, as functions from the receiver's
  old value to its new one. Floating-point numbers are modelled as real numbers.
\<close>

datatype Vector3 = Vector3 (vx: real) (vy: real) (vz: real)

datatype Quaternion = Quaternion (qx: real) (qy: real) (qz: real) (qw: real)

datatype Color = Color (cr: real) (cg: real) (cb: real)

text \<open>\<open>lerp(v, alpha)\<close>: \<open>this.x += (v.x - this.x) * alpha\<close>, and so for y and z.\<close>

definition Vector3_lerp :: "Vector3 \<Rightarrow> Vector3 \<Rightarrow> real \<Rightarrow> Vector3" where
  "Vector3_lerp this v alpha =
     Vector3 (vx this + (vx v - vx this) * alpha)
             (vy this + (vy v - vy this) * alpha)
             (vz this + (vz v - vz this) * alpha)"

definition Vector3_add :: "Vector3 \<Rightarrow> Vector3 \<Rightarrow> Vector3" where
  "Vector3_add this v = Vector3 (vx this + vx v) (vy this + vy v) (vz this + vz v)"

definition Vector3_multiplyScalar :: "Vector3 \<Rightarrow> real \<Rightarrow> Vector3" where
  "Vector3_multiplyScalar this s = Vector3 (vx this * s) (vy this * s) (vz this * s)"

definition Vector3_length :: "Vector3 \<Rightarrow> real" where
  "Vector3_length this = sqrt (vx this * vx this + vy this * vy this + vz this * vz this)"

text \<open>\<open>divideScalar(s)\<close> is \<open>multiplyScalar(1 / s)\<close>.\<close>

definition Vector3_divideScalar :: "Vector3 \<Rightarrow> real \<Rightarrow> Vector3" where
  "Vector3_divideScalar this s = Vector3_multiplyScalar this (1 / s)"

text \<open>\<open>normalize()\<close> is \<open>divideScalar(this.length() || 1)\<close>: a zero length divides by 1.\<close>

definition Vector3_normalize :: "Vector3 \<Rightarrow> Vector3" where
  "Vector3_normalize this =
     Vector3_divideScalar this (if Vector3_length this = 0 then 1 else Vector3_length this)"

definition Vector3_distanceTo :: "Vector3 \<Rightarrow> Vector3 \<Rightarrow> real" where
  "Vector3_distanceTo this v =
     (let dx = vx this - vx v; dy = vy this - vy v; dz = vz this - vz v
      in sqrt (dx * dx + dy * dy + dz * dz))"

text \<open>\<open>setFromSphericalCoords(radius, phi, theta)\<close>.\<close>

definition Vector3_setFromSphericalCoords :: "real \<Rightarrow> real \<Rightarrow> real \<Rightarrow> Vector3" where
  "Vector3_setFromSphericalCoords radius phi theta =
     (let sinPhiRadius = sin phi * radius
      in Vector3 (sinPhiRadius * sin theta) (cos phi * radius) (sinPhiRadius * cos theta))"

text \<open>\<open>applyQuaternion(q)\<close>: \<open>v + q.w * t + cross(q.xyz, t)\<close> with \<open>t = 2 * cross(q.xyz, v)\<close>.\<close>

definition Vector3_applyQuaternion :: "Vector3 \<Rightarrow> Quaternion \<Rightarrow> Vector3" where
  "Vector3_applyQuaternion this q =
     (let tx = 2 * (qy q * vz this - qz q * vy this);
          ty = 2 * (qz q * vx this - qx q * vz this);
          tz = 2 * (qx q * vy this - qy q * vx this)
      in Vector3 (vx this + qw q * tx + qy q * tz - qz q * ty)
                 (vy this + qw q * ty + qz q * tx - qx q * tz)
                 (vz this + qw q * tz + qx q * ty - qy q * tx))"

definition Color_multiplyScalar :: "Color \<Rightarrow> real \<Rightarrow> Color" where
  "Color_multiplyScalar this s = Color (cr this * s) (cg this * s) (cb this * s)"

section \<open>The heart particle system: HeartParticles\<close>

subsection \<open>Objects and the store\<close>

text \<open>
  Every \<open>THREE.Vector3\<close> the component holds is an object that methods mutate in
  place, so the vectors live in a store and the particle records hold their addresses.
\<close>

type_synonym addr = nat

type_synonym store = "addr \<Rightarrow> Vector3"

datatype archetype = front | surround | scatter

text \<open>One entry of \<open>data\<close> (lines 225-235).\<close>

record particle =
  home :: addr
  type :: archetype
  offset :: addr
  fixedTarget :: addr
  color :: Color
  rotSpeed :: real
  scale :: real
  currentPos :: addr
  phase :: real

text \<open>
  The state of the \<open>useMemo\<close> initialiser: the store, the next free address, and
  how many times \<open>Math.random()\<close> has been called. The values \<open>Math.random()\<close>
  returns are a parameter \<open>rnd\<close>: its \<open>k\<close>-th call returns \<open>rnd k\<close>.
\<close>

record gen_state =
  heap :: store
  brk :: addr
  calls :: nat

definition Math_random :: "(nat \<Rightarrow> real) \<Rightarrow> gen_state \<Rightarrow> real \<times> gen_state" where
  "Math_random rnd g = (rnd (calls g), g\<lparr>calls := Suc (calls g)\<rparr>)"

definition new_Vector3 :: "Vector3 \<Rightarrow> gen_state \<Rightarrow> addr \<times> gen_state" where
  "new_Vector3 v g = (brk g, g\<lparr>heap := (heap g)(brk g := v), brk := Suc (brk g)\<rparr>)"

definition Vector3_set :: "addr \<Rightarrow> Vector3 \<Rightarrow> gen_state \<Rightarrow> gen_state" where
  "Vector3_set a v g = g\<lparr>heap := (heap g)(a := v)\<rparr>"

subsection \<open>Creation of the particles\<close>

text \<open>The home position (lines 168-187): in the cap, or in the stem.\<close>

definition create_home :: "(nat \<Rightarrow> real) \<Rightarrow> gen_state \<Rightarrow> addr \<times> gen_state" where
  "create_home rnd g0 =
     (let (r0, g1) = Math_random rnd g0;
          isCap = (r0 > 0.3);
          (home_ref, g2) = new_Vector3 (Vector3 0 0 0) g1
      in if isCap then
           (let (u, g3) = Math_random rnd g2;
                (v, g4) = Math_random rnd g3;
                theta = 2 * pi * u;
                phi = arccos (2 * v - 1);
                (r1, g5) = Math_random rnd g4;
                r = 1.2 * root 3 r1
            in (home_ref,
                Vector3_set home_ref
                  (Vector3 (r * sin phi * cos theta) (2 + \<bar>r * cos phi\<bar>) (r * sin phi * sin theta)) g5))
         else
           (let (r1, g3) = Math_random rnd g2;
                theta = r1 * pi * 2;
                (r2, g4) = Math_random rnd g3;
                r = r2 * 0.4;
                (r3, g5) = Math_random rnd g4;
                h = r3 * 2
            in (home_ref, Vector3_set home_ref (Vector3 (r * cos theta) h (r * sin theta)) g5)))"

text \<open>
  The archetype and its parameters (lines 189-218). \<open>offset\<close> and \<open>fixedTarget\<close>
  start as fresh zero vectors; the scatter branch binds \<open>fixedTarget\<close> to the
  \<open>explodeDir\<close> object, which it scales and shifts in place.
\<close>

definition create_archetype :: "(nat \<Rightarrow> real) \<Rightarrow> gen_state \<Rightarrow> (archetype \<times> addr \<times> addr) \<times> gen_state" where
  "create_archetype rnd g0 =
     (let (offset_ref, g1) = new_Vector3 (Vector3 0 0 0) g0;
          (fixedTarget_ref, g2) = new_Vector3 (Vector3 0 0 0) g1;
          (rand, g3) = Math_random rnd g2
      in if rand < 0.116 then
           (let (r1, g4) = Math_random rnd g3;
                dist = 1.5 + r1 * 4.5;
                spread = 0.5 + (dist * 0.2);
                (r2, g5) = Math_random rnd g4;
                angle = r2 * pi * 2;
                (r3, g6) = Math_random rnd g5;
                radius = r3 * spread
            in ((front, offset_ref, fixedTarget_ref),
                Vector3_set offset_ref (Vector3 (cos angle * radius) (sin angle * radius) (- dist)) g6))
         else if rand < 0.537 then
           (let (r1, g4) = Math_random rnd g3;
                r = 2.0 + r1 * 5.0;
                (r2, g5) = Math_random rnd g4;
                theta = r2 * pi * 2;
                (r3, g6) = Math_random rnd g5;
                phi = arccos (2 * r3 - 1)
            in ((surround, offset_ref, fixedTarget_ref),
                Vector3_set offset_ref (Vector3_setFromSphericalCoords r phi theta) g6))
         else
           (let (r1, g4) = Math_random rnd g3;
                (r2, g5) = Math_random rnd g4;
                (r3, g6) = Math_random rnd g5;
                (explodeDir, g7) = new_Vector3 (Vector3 (r1 - 0.5) (r2 - 0.5) (r3 - 0.5)) g6;
                g8 = Vector3_set explodeDir (Vector3_normalize (heap g7 explodeDir)) g7;
                (r4, g9) = Math_random rnd g8;
                dist = 6 + r4 * 16;
                g10 = Vector3_set explodeDir (Vector3_multiplyScalar (heap g9 explodeDir) dist) g9;
                (bias, g11) = new_Vector3 (Vector3 0 2 0) g10;
                g12 = Vector3_set explodeDir (Vector3_add (heap g11 explodeDir) (heap g11 bias)) g11
            in ((scatter, offset_ref, explodeDir), g12)))"

text \<open>
  \<open>COLORS.hearts[Math.floor(Math.random() * COLORS.hearts.length)]\<close>: the palette, as
  the colours three.js parses from the six strings, is a parameter. An index outside
  the array reads \<open>undefined\<close>, and \<open>new THREE.Color(undefined)\<close> is white.
\<close>

definition pick_color :: "Color list \<Rightarrow> real \<Rightarrow> Color" where
  "pick_color hearts r =
     (let k = \<lfloor>r * real (length hearts)\<rfloor>
      in if 0 \<le> k \<and> nat k < length hearts then hearts ! nat k else Color 1 1 1)"

text \<open>One iteration of the creation loop (lines 168-235).\<close>

definition create_particle :: "(nat \<Rightarrow> real) \<Rightarrow> Color list \<Rightarrow> gen_state \<Rightarrow> particle \<times> gen_state" where
  "create_particle rnd hearts g0 =
     (let (home_ref, g1) = create_home rnd g0;
          ((ty, offset_ref, fixedTarget_ref), g2) = create_archetype rnd g1;
          (r1, g3) = Math_random rnd g2;
          col = pick_color hearts r1;
          (r2, g4) = Math_random rnd g3;
          rotSpeed_v = (r2 - 0.5) * 2;
          (r3, g5) = Math_random rnd g4;
          scale_v = 0.04 + r3 * 0.14;
          (r4, g6) = Math_random rnd g5;
          phase_v = r4 * pi * 2;
          (clone, g7) = new_Vector3 (heap g6 home_ref) g6
      in (\<lparr>home = home_ref, type = ty, offset = offset_ref, fixedTarget = fixedTarget_ref,
           color = col, rotSpeed = rotSpeed_v, scale = scale_v, currentPos = clone,
           phase = phase_v\<rparr>, g7))"

text \<open>The loop \<open>for (let i = 0; i < count; i++)\<close>, by the number of iterations left.\<close>

fun create_loop :: "(nat \<Rightarrow> real) \<Rightarrow> Color list \<Rightarrow> nat \<Rightarrow> particle list \<times> gen_state \<Rightarrow> particle list \<times> gen_state" where
  "create_loop rnd hearts 0 (temp, g) = (temp, g)"
| "create_loop rnd hearts (Suc n) (temp, g) =
     (let (p, g') = create_particle rnd hearts g in create_loop rnd hearts n (temp @ [p], g'))"

text \<open>
  The scratch objects of the component (lines 240-244): \<open>dummy\<close> with its position and
  scale vectors, \<open>tempVec\<close>, \<open>camLocalPos\<close> and \<open>tempWorldTarget\<close>.
\<close>

record scratch =
  dummy_position :: addr
  dummy_scale :: addr
  tempVec :: addr
  camLocalPos :: addr
  tempWorldTarget :: addr

definition create_scratch :: "gen_state \<Rightarrow> scratch \<times> gen_state" where
  "create_scratch g0 =
     (let (dp, g1) = new_Vector3 (Vector3 0 0 0) g0;
          (ds, g2) = new_Vector3 (Vector3 1 1 1) g1;
          (tv, g3) = new_Vector3 (Vector3 0 0 0) g2;
          (cl, g4) = new_Vector3 (Vector3 0 0 0) g3;
          (tw, g5) = new_Vector3 (Vector3 0 0 0) g4
      in (\<lparr>dummy_position = dp, dummy_scale = ds, tempVec = tv, camLocalPos = cl,
           tempWorldTarget = tw\<rparr>, g5))"

text \<open>
  The instanced mesh behind \<open>meshRef.current\<close>, as far as the frame callback writes
  it. An instance matrix is kept as the position, Euler rotation and scale that
  \<open>dummy.updateMatrix()\<close> composes it from. Both buffers are typed arrays: a write past
  the end is ignored, as \<open>list_update\<close> does.
\<close>

type_synonym transform = "Vector3 \<times> (real \<times> real \<times> real) \<times> Vector3"

record instanced_mesh =
  instanceMatrix :: "transform list"
  instanceMatrix_needsUpdate :: bool
  instanceColor :: "Color list option"
  instanceColor_needsUpdate :: bool

definition setMatrixAt :: "nat \<Rightarrow> transform \<Rightarrow> instanced_mesh \<Rightarrow> instanced_mesh" where
  "setMatrixAt i m mesh = mesh\<lparr>instanceMatrix := (instanceMatrix mesh)[i := m]\<rparr>"

text \<open>\<open>setColorAt\<close> creates the colour buffer, filled with ones, when there is none.\<close>

definition setColorAt :: "nat \<Rightarrow> Color \<Rightarrow> instanced_mesh \<Rightarrow> instanced_mesh" where
  "setColorAt i c mesh =
     (case instanceColor mesh of
        None \<Rightarrow> mesh\<lparr>instanceColor := Some ((replicate (length (instanceMatrix mesh)) (Color 1 1 1))[i := c])\<rparr>
      | Some cs \<Rightarrow> mesh\<lparr>instanceColor := Some (cs[i := c])\<rparr>)"

text \<open>The component between renders: the memoised data, the scratch objects, the store and the ref.\<close>

record heart_particles =
  data :: "particle list"
  scr :: scratch
  mem :: store
  meshRef :: "instanced_mesh option"

definition HeartParticles_create :: "nat \<Rightarrow> (nat \<Rightarrow> real) \<Rightarrow> Color list \<Rightarrow> heart_particles" where
  "HeartParticles_create n rnd hearts =
     (let (temp, g1) = create_loop rnd hearts n ([], \<lparr>heap = (\<lambda>a. Vector3 0 0 0), brk = 0, calls = 0\<rparr>);
          (sc, g2) = create_scratch g1
      in \<lparr>data = temp, scr = sc, mem = heap g2, meshRef = None\<rparr>)"

text \<open>\<open>const count = 1900\<close>.\<close>

definition HeartParticles_init :: "(nat \<Rightarrow> real) \<Rightarrow> Color list \<Rightarrow> heart_particles" where
  "HeartParticles_init rnd hearts = HeartParticles_create 1900 rnd hearts"

text \<open>React attaches \<open>new InstancedMesh(heartGeo, undefined, count)\<close> to the ref.\<close>

definition mount :: "heart_particles \<Rightarrow> heart_particles" where
  "mount hp =
     hp\<lparr>meshRef := Some \<lparr>instanceMatrix =
                            replicate (length (data hp)) (Vector3 0 0 0, (0, 0, 0), Vector3 1 1 1),
                          instanceMatrix_needsUpdate = False,
                          instanceColor = None,
                          instanceColor_needsUpdate = False\<rparr>\<rparr>"

subsection \<open>The frame callback\<close>

text \<open>
  What a frame reads from react-three-fiber: the clock, the camera pose, and
  \<open>worldToLocal\<close>, the inverse of the mesh's world matrix as
  \<open>updateMatrixWorld()\<close> leaves it in this frame (it follows the rig's rotation).
\<close>

record frame_state =
  elapsedTime :: real
  camera_position :: Vector3
  camera_quaternion :: Quaternion
  worldToLocal :: "Vector3 \<Rightarrow> Vector3"

text \<open>
  Lines 255-272: the desired position of particle \<open>d\<close> with index \<open>i\<close>, left in
  \<open>tempVec\<close>, to which \<open>target\<close> is bound.
\<close>

definition set_target :: "bool \<Rightarrow> frame_state \<Rightarrow> scratch \<Rightarrow> particle \<Rightarrow> nat \<Rightarrow> store \<Rightarrow> store" where
  "set_target isExploded state sc d i st =
     (let target = tempVec sc; time = elapsedTime state in
      if isExploded then
        (let st1 =
           (if type d = front then
              (let s1 = st(tempWorldTarget sc := st (offset d));
                   s2 = s1(tempWorldTarget sc :=
                          Vector3_applyQuaternion (s1 (tempWorldTarget sc)) (camera_quaternion state));
                   s3 = s2(tempWorldTarget sc :=
                          Vector3_add (s2 (tempWorldTarget sc)) (camera_position state));
                   s4 = s3(tempWorldTarget sc := worldToLocal state (s3 (tempWorldTarget sc)))
               in s4(target := s4 (tempWorldTarget sc)))
            else if type d = surround then
              (let s1 = st(target := st (camLocalPos sc))
               in s1(target := Vector3_add (s1 target) (s1 (offset d))))
            else st(target := st (fixedTarget d)));
             st2 = st1(target := Vector3 (vx (st1 target))
                                        (vy (st1 target) + sin (time + real i * 0.1) * 0.2)
                                        (vz (st1 target)));
             st3 = st2(target := Vector3 (vx (st2 target) + cos (time * 0.5 + real i * 0.1) * 0.1)
                                        (vy (st2 target))
                                        (vz (st2 target)))
         in st3)
      else st(target := st (home d)))"

text \<open>
  Lines 254-289: the body of \<open>data.forEach((d, i) => ...)\<close>; \<open>r\<close> is what
  \<open>Math.random()\<close> returns in line 274.
\<close>

definition particle_frame ::
  "bool \<Rightarrow> frame_state \<Rightarrow> real \<Rightarrow> real \<Rightarrow> scratch \<Rightarrow> real \<Rightarrow> particle \<Rightarrow> nat
     \<Rightarrow> store \<times> instanced_mesh \<Rightarrow> store \<times> instanced_mesh" where
  "particle_frame isExploded state delta speed sc r d i sm =
     (let st0 = fst sm; mesh0 = snd sm;
          time = elapsedTime state;
          target = tempVec sc;
          st1 = set_target isExploded state sc d i st0;
          st2 = st1(currentPos d :=
                  Vector3_lerp (st1 (currentPos d)) (st1 target) (delta * speed * (0.8 + r * 0.4)));
          st3 = st2(dummy_position sc := st2 (currentPos d));
          rotation = (time * rotSpeed d, time * rotSpeed d * 0.5, 0);
          s = (if \<not> isExploded then
                 (let dist = Vector3_distanceTo (st3 (currentPos d)) (st3 (home d))
                  in if dist < 0.2 then scale d * (dist * 5) else scale d)
               else scale d);
          st4 = st3(dummy_scale sc := Vector3 s s s);
          matrix = (st4 (dummy_position sc), rotation, st4 (dummy_scale sc));
          mesh1 = setMatrixAt i matrix mesh0;
          twinkle = sin (time * 5 + phase d);
          intensity = 1.5 + (if twinkle > 0.5 then twinkle * 2 else 0);
          tempColor = Color_multiplyScalar (color d) intensity;
          mesh2 = setColorAt i tempColor mesh1
      in (st4, mesh2))"

text \<open>\<open>Array.prototype.forEach\<close> with the index.\<close>

fun forEach :: "('a \<Rightarrow> nat \<Rightarrow> 's \<Rightarrow> 's) \<Rightarrow> 'a list \<Rightarrow> nat \<Rightarrow> 's \<Rightarrow> 's" where
  "forEach f [] i s = s"
| "forEach f (d # ds) i s = forEach f ds (Suc i) (f d i s)"

text \<open>
  The callback of \<open>useFrame\<close> (lines 246-293). \<open>rnd i\<close> is what \<open>Math.random()\<close>
  returns for particle \<open>i\<close> in this frame: the callback calls it once per particle, in
  order.
\<close>

definition useFrame_HeartParticles ::
  "bool \<Rightarrow> frame_state \<Rightarrow> real \<Rightarrow> (nat \<Rightarrow> real) \<Rightarrow> heart_particles \<Rightarrow> heart_particles" where
  "useFrame_HeartParticles isExploded state delta rnd hp =
     (case meshRef hp of
        None \<Rightarrow> hp
      | Some mesh \<Rightarrow>
         (let speed = (if isExploded then 3 else 6);
              sc = scr hp;
              st1 = (mem hp)(camLocalPos sc := camera_position state);
              st2 = st1(camLocalPos sc := worldToLocal state (st1 (camLocalPos sc)));
              (st3, mesh3) =
                 forEach (\<lambda>d i. particle_frame isExploded state delta speed sc (rnd i) d i)
                   (data hp) 0 (st2, mesh);
              mesh4 = mesh3\<lparr>instanceMatrix_needsUpdate := True\<rparr>;
              mesh5 = (if instanceColor mesh4 \<noteq> None
                       then mesh4\<lparr>instanceColor_needsUpdate := True\<rparr> else mesh4)
          in hp\<lparr>mem := st3, meshRef := Some mesh5\<rparr>))"

text \<open>
  A run of frames: frame \<open>k\<close> gets \<open>isExploded\<close>, the frame state, \<open>delta\<close> and the
  random values from \<open>fs k\<close>.
\<close>

fun run_frames ::
  "(nat \<Rightarrow> bool \<times> frame_state \<times> real \<times> (nat \<Rightarrow> real)) \<Rightarrow> nat \<Rightarrow> heart_particles \<Rightarrow> heart_particles" where
  "run_frames fs 0 hp = hp"
| "run_frames fs (Suc n) hp =
     (case fs n of (isExploded, state, delta, rnd) \<Rightarrow>
        useFrame_HeartParticles isExploded state delta rnd (run_frames fs n hp))"

text \<open>
  No two of the vectors the component holds are the same object: the scratch vectors
  and, for every particle, its home, offset, fixed target and current position.
\<close>

definition particle_addrs :: "particle \<Rightarrow> addr list" where
  "particle_addrs d = [home d, offset d, fixedTarget d, currentPos d]"

definition scratch_addrs :: "scratch \<Rightarrow> addr list" where
  "scratch_addrs sc = [dummy_position sc, dummy_scale sc, tempVec sc, camLocalPos sc, tempWorldTarget sc]"

definition separated :: "heart_particles \<Rightarrow> bool" where
  "separated hp = distinct (scratch_addrs (scr hp) @ concat (map particle_addrs (data hp)))"

text \<open>
  The value that \<open>set_target\<close> leaves in \<open>tempVec\<close>, as a function of the particle's
  own vectors, the camera pose and the time.
\<close>

definition oscillate :: "real \<Rightarrow> nat \<Rightarrow> Vector3 \<Rightarrow> Vector3" where
  "oscillate time i v =
     Vector3 (vx v + cos (time * 0.5 + real i * 0.1) * 0.1)
             (vy v + sin (time + real i * 0.1) * 0.2)
             (vz v)"

definition desired_position :: "bool \<Rightarrow> frame_state \<Rightarrow> particle \<Rightarrow> nat \<Rightarrow> store \<Rightarrow> Vector3" where
  "desired_position isExploded state d i st =
     (if isExploded then
        oscillate (elapsedTime state) i
          (case type d of
             front \<Rightarrow> worldToLocal state
                        (Vector3_add (Vector3_applyQuaternion (st (offset d)) (camera_quaternion state))
                                     (camera_position state))
           | surround \<Rightarrow> Vector3_add (worldToLocal state (camera_position state)) (st (offset d))
           | scatter \<Rightarrow> st (fixedTarget d))
      else st (home d))"

text \<open>
  The colour buffer as \<open>setColorAt\<close> sees it: the buffer of the mesh, or the fresh
  buffer of ones it would create.
\<close>

definition colorBuffer :: "instanced_mesh \<Rightarrow> Color list" where
  "colorBuffer mesh =
     (case instanceColor mesh of
        None \<Rightarrow> replicate (length (instanceMatrix mesh)) (Color 1 1 1)
      | Some cs \<Rightarrow> cs)"



subsection \<open>A small instance\<close>

text \<open>
  Two particles created with every \<open>Math.random()\<close> returning one half, mounted, and
  frames of a sixtieth of a second seen from the initial camera position of \<open>App\<close>
  with the rig at rest: \<open>demo_frames\<close> toggles \<open>isExploded\<close> at every frame,
  \<open>gathered_frames\<close> keeps it false.
\<close>

definition demo_state :: frame_state where
  "demo_state = \<lparr>elapsedTime = 0, camera_position = Vector3 0 2 7,
                  camera_quaternion = Quaternion 0 0 0 1, worldToLocal = (\<lambda>v. v)\<rparr>"

definition demo_particles :: heart_particles where
  "demo_particles = mount (HeartParticles_create 2 (\<lambda>i. 1 / 2) [])"

definition demo_frames :: "nat \<Rightarrow> bool \<times> frame_state \<times> real \<times> (nat \<Rightarrow> real)" where
  "demo_frames n = (even n, demo_state, 1 / 60, (\<lambda>i. 1 / 2))"


text \<open>
  One mounted scatter particle in the middle of a gather: home at the origin, fixed
  target \<open>(0, 8, 0)\<close>, currently at \<open>(1, 0, 0)\<close>, with base colour
  \<open>(1, 1/2, 1/4)\<close>.
\<close>

definition displaced_particles :: heart_particles where
  "displaced_particles =
     \<lparr>data = [\<lparr>home = 0, type = scatter, offset = 1, fixedTarget = 2, color = Color 1 (1 / 2) (1 / 4),
               rotSpeed = 0, scale = 1 / 10, currentPos = 3, phase = 0\<rparr>],
      scr = \<lparr>dummy_position = 4, dummy_scale = 5, tempVec = 6, camLocalPos = 7,
              tempWorldTarget = 8\<rparr>,
      mem = (\<lambda>a. Vector3 0 0 0)(2 := Vector3 0 8 0, 3 := Vector3 1 0 0),
      meshRef = Some \<lparr>instanceMatrix = [(Vector3 0 0 0, (0, 0, 0), Vector3 1 1 1)],
                       instanceMatrix_needsUpdate = False,
                       instanceColor = None,
                       instanceColor_needsUpdate = False\<rparr>\<rparr>"



section \<open>Properties of the display-state controller\<close>

lemma predict_landmarks_isHandOpen:
  "isHandOpen (app (predict_landmarks results g)) = isHandOpen (app g)"
  by (simp add: predict_landmarks_def handleHandMove_def Let_def)

text \<open>
  Claim C1, as the code has it. The display state is one boolean, so it has two values,
  both reachable by the pointer handlers; but the program starts with \<open>isHandOpen\<close>
  true, so the \<open>isExploded\<close> that the particle evaluator and the mushroom read at
  program start is true (Exploded), not false.
\<close>

theorem App_starts_exploded:
  "HeartParticles_isExploded App_init = True
   \<and> Mushroom_isExploded App_init = True
   \<and> HeartParticles_isExploded (MagicalScene_handlers PointerDown App_init) = False
   \<and> HeartParticles_isExploded (MagicalScene_handlers PointerUp (MagicalScene_handlers PointerDown App_init)) = True
   \<and> range HeartParticles_isExploded = {False, True}"
proof -
  have "range HeartParticles_isExploded = {False, True}"
  proof
    show "range HeartParticles_isExploded \<subseteq> {False, True}" by auto
    have "HeartParticles_isExploded (setHandOpen False App_init) = False"
      by (simp add: HeartParticles_isExploded_def setHandOpen_def)
    moreover have "HeartParticles_isExploded (setHandOpen True App_init) = True"
      by (simp add: HeartParticles_isExploded_def setHandOpen_def)
    ultimately show "{False, True} \<subseteq> range HeartParticles_isExploded"
      by (metis (full_types) empty_subsetI insert_subset rangeI)
  qed
  then show ?thesis
    by (simp add: HeartParticles_isExploded_def Mushroom_isExploded_def App_init_def
        MagicalScene_handlers_def setHandOpen_def)
qed

text \<open>
  Claim C1 as stated fails: before any input the evaluator's \<open>isExploded\<close> is not false.
\<close>

theorem App_init_not_gathered:
  "HeartParticles_isExploded App_init \<noteq> False"
  by (simp add: HeartParticles_isExploded_def App_init_def)

text \<open>
  Claim C2. One pass of the gesture loop changes \<open>isHandOpen\<close> only on an explicit
  match of the first category of the first hand with a score strictly above 0.5:
  \<open>Open_Palm\<close> sets it to true (Exploded), \<open>Closed_Fist\<close> sets it to false
  (Gathered); any other name, any score at most 0.5, no detected hand, or a hand with
  no category leaves it as it was. The pointer handlers do nothing in camera mode.
\<close>

theorem predictWebcam_transition:
  "(gestures results = (c # cs) # gs \<and> score c > 0.5 \<and> categoryName c = ''Open_Palm''
      \<longrightarrow> isHandOpen (app (predictWebcam results g)) = True)
   \<and> (gestures results = (c # cs) # gs \<and> score c > 0.5 \<and> categoryName c = ''Closed_Fist''
      \<longrightarrow> isHandOpen (app (predictWebcam results g)) = False)
   \<and> (gestures results = (c # cs) # gs \<and> score c > 0.5
        \<and> categoryName c \<noteq> ''Open_Palm'' \<and> categoryName c \<noteq> ''Closed_Fist''
      \<longrightarrow> isHandOpen (app (predictWebcam results g)) = isHandOpen (app g))
   \<and> (gestures results = (c # cs) # gs \<and> score c \<le> 0.5
      \<longrightarrow> isHandOpen (app (predictWebcam results g)) = isHandOpen (app g))
   \<and> (gestures results = [] \<or> (\<exists>gs. gestures results = [] # gs)
      \<longrightarrow> isHandOpen (app (predictWebcam results g)) = isHandOpen (app g))
   \<and> (cameraEnabled (app g) \<longrightarrow> MagicalScene_handlers e (app g) = app g)"
  by (auto simp add: predictWebcam_def predict_gestures_def predict_landmarks_isHandOpen
      setHandOpen_def MagicalScene_handlers_def Let_def)

theorem predictWebcam_transition_witness:
  "isHandOpen (app (predictWebcam
       \<lparr>gestures = [[\<lparr>categoryName = ''Open_Palm'', score = 0.9\<rparr>]], landmarks = []\<rparr>
       \<lparr>app = App_init\<lparr>isHandOpen := False, cameraEnabled := True\<rparr>, gestureName = ''None''\<rparr>)) = True
   \<and> isHandOpen (app (predictWebcam
       \<lparr>gestures = [[\<lparr>categoryName = ''Closed_Fist'', score = 0.51\<rparr>]], landmarks = []\<rparr>
       \<lparr>app = App_init\<lparr>cameraEnabled := True\<rparr>, gestureName = ''None''\<rparr>)) = False
   \<and> isHandOpen (app (predictWebcam
       \<lparr>gestures = [[\<lparr>categoryName = ''Victory'', score = 0.9\<rparr>]], landmarks = []\<rparr>
       \<lparr>app = App_init\<lparr>cameraEnabled := True\<rparr>, gestureName = ''None''\<rparr>)) = True
   \<and> isHandOpen (app (predictWebcam
       \<lparr>gestures = [[\<lparr>categoryName = ''Closed_Fist'', score = 0.5\<rparr>]], landmarks = []\<rparr>
       \<lparr>app = App_init\<lparr>cameraEnabled := True\<rparr>, gestureName = ''None''\<rparr>)) = True
   \<and> isHandOpen (app (predictWebcam
       \<lparr>gestures = [], landmarks = []\<rparr>
       \<lparr>app = App_init\<lparr>cameraEnabled := True\<rparr>, gestureName = ''None''\<rparr>)) = True"
proof -
  let ?g = "\<lparr>app = App_init\<lparr>cameraEnabled := True\<rparr>, gestureName = ''None''\<rparr>"
  let ?h = "\<lparr>app = App_init\<lparr>isHandOpen := False, cameraEnabled := True\<rparr>, gestureName = ''None''\<rparr>"
  have a: "isHandOpen (app ?g) = True"
    by (simp add: App_init_def)
  have 1: "isHandOpen (app (predictWebcam
       \<lparr>gestures = [[\<lparr>categoryName = ''Open_Palm'', score = 0.9\<rparr>]], landmarks = []\<rparr> ?h)) = True"
    using predictWebcam_transition [of "\<lparr>gestures = [[\<lparr>categoryName = ''Open_Palm'', score = 0.9\<rparr>]], landmarks = []\<rparr>"
        "\<lparr>categoryName = ''Open_Palm'', score = 0.9\<rparr>" "[]" "[]" ?h]
    by simp
  have 2: "isHandOpen (app (predictWebcam
       \<lparr>gestures = [[\<lparr>categoryName = ''Closed_Fist'', score = 0.51\<rparr>]], landmarks = []\<rparr> ?g)) = False"
    using predictWebcam_transition [of "\<lparr>gestures = [[\<lparr>categoryName = ''Closed_Fist'', score = 0.51\<rparr>]], landmarks = []\<rparr>"
        "\<lparr>categoryName = ''Closed_Fist'', score = 0.51\<rparr>" "[]" "[]" ?g]
    by simp
  have 3: "isHandOpen (app (predictWebcam
       \<lparr>gestures = [[\<lparr>categoryName = ''Victory'', score = 0.9\<rparr>]], landmarks = []\<rparr> ?g)) = True"
    using a predictWebcam_transition [of "\<lparr>gestures = [[\<lparr>categoryName = ''Victory'', score = 0.9\<rparr>]], landmarks = []\<rparr>"
        "\<lparr>categoryName = ''Victory'', score = 0.9\<rparr>" "[]" "[]" ?g]
    by simp
  have 4: "isHandOpen (app (predictWebcam
       \<lparr>gestures = [[\<lparr>categoryName = ''Closed_Fist'', score = 0.5\<rparr>]], landmarks = []\<rparr> ?g)) = True"
    using a predictWebcam_transition [of "\<lparr>gestures = [[\<lparr>categoryName = ''Closed_Fist'', score = 0.5\<rparr>]], landmarks = []\<rparr>"
        "\<lparr>categoryName = ''Closed_Fist'', score = 0.5\<rparr>" "[]" "[]" ?g]
    by simp
  have 5: "isHandOpen (app (predictWebcam \<lparr>gestures = [], landmarks = []\<rparr> ?g)) = True"
    using a predictWebcam_transition [of "\<lparr>gestures = [], landmarks = []\<rparr>" _ _ _ ?g]
    by simp
  from 1 2 3 4 5 show ?thesis
    by (intro conjI)
qed

text \<open>
  Claim C9, as the code has it. Nothing clamps the look vector. One pass of the gesture
  loop that does not throw stores \<open>((x - 0.5) * 2, (y - 0.5) * 2)\<close> of landmark 9 of
  the first hand as it is; it lies in \<open>[-1, 1]\<close> when the landmark lies in the image
  (\<open>[0, 1]\<close>) and outside it otherwise. In camera mode the rig then moves each rotation a
  tenth of the way to half of three times the stored component, whatever its size.
\<close>

theorem lookVector_passed_unclamped:
  assumes "landmarks results = hand # hs" and "9 < length hand"
    and "\<not> (\<exists>gs. gestures results = [] # gs)"
  shows "handPos (app (predictWebcam results g))
           = ((lx (hand ! 9) - 0.5) * 2, (ly (hand ! 9) - 0.5) * 2)
    \<and> ((0 \<le> lx (hand ! 9) \<and> lx (hand ! 9) \<le> 1)
         = (\<bar>fst (handPos (app (predictWebcam results g)))\<bar> \<le> 1))
    \<and> ((0 \<le> ly (hand ! 9) \<and> ly (hand ! 9) \<le> 1)
         = (\<bar>snd (handPos (app (predictWebcam results g)))\<bar> \<le> 1))
    \<and> Rig_frame True (handPos (app (predictWebcam results g))) pointer (Some rot)
         = Some \<lparr>rotation_x = 0.9 * rotation_x rot + 0.1 * (- (3 * ((ly (hand ! 9) - 0.5) * 2)) / 2),
                   rotation_y = 0.9 * rotation_y rot + 0.1 * ((3 * ((lx (hand ! 9) - 0.5) * 2)) / 2)\<rparr>"
proof -
  have "\<exists>g1. predict_gestures results g = Inr g1"
    using assms(3)
    by (auto simp add: predict_gestures_def Let_def neq_Nil_conv split: list.splits)
  then obtain g1 where g1: "predict_gestures results g = Inr g1" ..
  have hp: "handPos (app (predictWebcam results g))
           = ((lx (hand ! 9) - 0.5) * 2, (ly (hand ! 9) - 0.5) * 2)"
    using assms(1,2) g1
    by (simp add: predictWebcam_def predict_landmarks_def handleHandMove_def Let_def)
  have rig: "Rig_frame True (handPos (app (predictWebcam results g))) pointer (Some rot)
         = Some \<lparr>rotation_x = 0.9 * rotation_x rot + 0.1 * (- (3 * ((ly (hand ! 9) - 0.5) * 2)) / 2),
                   rotation_y = 0.9 * rotation_y rot + 0.1 * ((3 * ((lx (hand ! 9) - 0.5) * 2)) / 2)\<rparr>"
    unfolding hp by (cases rot) (simp add: Rig_frame_def MathUtils_lerp_def Let_def field_simps)
  have bx: "(0 \<le> lx (hand ! 9) \<and> lx (hand ! 9) \<le> 1)
         = (\<bar>fst (handPos (app (predictWebcam results g)))\<bar> \<le> 1)"
    unfolding hp by (auto simp add: abs_le_iff)
  have by': "(0 \<le> ly (hand ! 9) \<and> ly (hand ! 9) \<le> 1)
         = (\<bar>snd (handPos (app (predictWebcam results g)))\<bar> \<le> 1)"
    unfolding hp by (auto simp add: abs_le_iff)
  from hp rig bx by' show ?thesis by (intro conjI)
qed

theorem lookVector_passed_unclamped_witness:
  "handPos (app (predictWebcam
       \<lparr>gestures = [], landmarks = [replicate 21 \<lparr>lx = 2, ly = 0\<rparr>]\<rparr>
       \<lparr>app = App_init\<lparr>cameraEnabled := True\<rparr>, gestureName = ''None''\<rparr>)) = (3, - 1)
   \<and> Rig_frame True (handPos (app (predictWebcam
       \<lparr>gestures = [], landmarks = [replicate 21 \<lparr>lx = 2, ly = 0\<rparr>]\<rparr>
       \<lparr>app = App_init\<lparr>cameraEnabled := True\<rparr>, gestureName = ''None''\<rparr>))) (0, 0)
       (Some \<lparr>rotation_x = 0, rotation_y = 0\<rparr>)
     = Some \<lparr>rotation_x = 0.15, rotation_y = 0.45\<rparr>"
proof -
  let ?res = "\<lparr>gestures = [], landmarks = [replicate 21 \<lparr>lx = 2, ly = 0\<rparr>]\<rparr>"
  have h1: "landmarks ?res = replicate 21 \<lparr>lx = 2, ly = 0\<rparr> # []" by simp
  have h2: "9 < length (replicate 21 \<lparr>lx = 2, ly = (0::real)\<rparr>)" by simp
  have h3: "\<not> (\<exists>gs. gestures ?res = [] # gs)" by simp
  have n: "replicate 21 \<lparr>lx = 2, ly = (0::real)\<rparr> ! 9 = \<lparr>lx = 2, ly = 0\<rparr>" by simp
  note t = lookVector_passed_unclamped [OF h1 h2 h3,
      of "\<lparr>app = App_init\<lparr>cameraEnabled := True\<rparr>, gestureName = ''None''\<rparr>"
      "(0, 0)" "\<lparr>rotation_x = 0, rotation_y = 0\<rparr>"]
  have a: "handPos (app (predictWebcam ?res
       \<lparr>app = App_init\<lparr>cameraEnabled := True\<rparr>, gestureName = ''None''\<rparr>)) = (3, - 1)"
    using t [THEN conjunct1] unfolding n by simp
  have b: "Rig_frame True (handPos (app (predictWebcam ?res
       \<lparr>app = App_init\<lparr>cameraEnabled := True\<rparr>, gestureName = ''None''\<rparr>))) (0, 0)
       (Some \<lparr>rotation_x = 0, rotation_y = 0\<rparr>)
     = Some \<lparr>rotation_x = 0.15, rotation_y = 0.45\<rparr>"
    using t [THEN conjunct2, THEN conjunct2, THEN conjunct2] unfolding n by simp
  from a b show ?thesis by (intro conjI)
qed

text \<open>
  Claim C9 as stated fails: a landmark at \<open>x = 2\<close> (a hand partly outside the image)
  gives the look vector \<open>(3, -1)\<close>, which is stored outside \<open>[-1, 1]\<close>, and the
  rig turns by 0.45 where the clamped vector would turn it by 0.15.
\<close>

theorem lookVector_clamp_counterexample:
  "handPos (app (predictWebcam
       \<lparr>gestures = [], landmarks = [replicate 21 \<lparr>lx = 2, ly = 0\<rparr>]\<rparr>
       \<lparr>app = App_init\<lparr>cameraEnabled := True\<rparr>, gestureName = ''None''\<rparr>)) = (3, - 1)
   \<and> clamp_unit 3 = 1 \<and> (3::real) \<noteq> clamp_unit 3
   \<and> Rig_frame True (3, - 1) (0, 0) (Some \<lparr>rotation_x = 0, rotation_y = 0\<rparr>)
       = Some \<lparr>rotation_x = 0.15, rotation_y = 0.45\<rparr>
   \<and> Rig_frame True (clamp_unit 3, clamp_unit (- 1)) (0, 0) (Some \<lparr>rotation_x = 0, rotation_y = 0\<rparr>)
       = Some \<lparr>rotation_x = 0.15, rotation_y = 0.15\<rparr>
   \<and> Rig_frame True (3, - 1) (0, 0) (Some \<lparr>rotation_x = 0, rotation_y = 0\<rparr>)
       \<noteq> Rig_frame True (clamp_unit 3, clamp_unit (- 1)) (0, 0) (Some \<lparr>rotation_x = 0, rotation_y = 0\<rparr>)"
  by (simp add: predictWebcam_def predict_gestures_def predict_landmarks_def handleHandMove_def
      Rig_frame_def MathUtils_lerp_def clamp_unit_def Let_def)

section \<open>Properties of the frame callback\<close>

subsection \<open>What one particle's step writes\<close>

lemma set_target_other:
  "a \<noteq> tempVec sc \<Longrightarrow> a \<noteq> tempWorldTarget sc \<Longrightarrow> set_target isExploded state sc d i st a = st a"
  by (simp add: set_target_def Let_def)

lemma set_target_tempVec:
  assumes "tempVec sc \<noteq> tempWorldTarget sc"
    and "home d \<noteq> tempVec sc" and "home d \<noteq> tempWorldTarget sc"
    and "offset d \<noteq> tempVec sc" and "offset d \<noteq> tempWorldTarget sc"
    and "fixedTarget d \<noteq> tempVec sc" and "fixedTarget d \<noteq> tempWorldTarget sc"
    and "camLocalPos sc \<noteq> tempVec sc" and "camLocalPos sc \<noteq> tempWorldTarget sc"
    and "st (camLocalPos sc) = worldToLocal state (camera_position state)"
  shows "set_target isExploded state sc d i st (tempVec sc) = desired_position isExploded state d i st"
  using assms
  by (cases "type d") (simp_all add: set_target_def desired_position_def oscillate_def Let_def)

lemma particle_frame_other:
  assumes "a \<noteq> tempVec sc" and "a \<noteq> tempWorldTarget sc" and "a \<noteq> dummy_position sc"
    and "a \<noteq> dummy_scale sc" and "a \<noteq> currentPos d"
  shows "fst (particle_frame isExploded state delta speed sc r d i sm) a = fst sm a"
  using assms by (simp add: particle_frame_def Let_def set_target_other)

lemma particle_frame_currentPos:
  assumes "currentPos d \<noteq> tempVec sc" and "currentPos d \<noteq> tempWorldTarget sc"
    and "currentPos d \<noteq> dummy_position sc" and "currentPos d \<noteq> dummy_scale sc"
  shows "fst (particle_frame isExploded state delta speed sc r d i sm) (currentPos d)
         = Vector3_lerp (fst sm (currentPos d))
             (set_target isExploded state sc d i (fst sm) (tempVec sc))
             (delta * speed * (0.8 + r * 0.4))"
  using assms by (simp add: particle_frame_def Let_def set_target_other)


lemma desired_position_cong:
  assumes "st (home d) = st' (home d)" and "st (offset d) = st' (offset d)"
    and "st (fixedTarget d) = st' (fixedTarget d)"
  shows "desired_position isExploded state d i st = desired_position isExploded state d i st'"
  using assms by (cases "type d") (simp_all add: desired_position_def)

lemma forEach_other:
  assumes "a \<noteq> tempVec sc" and "a \<noteq> tempWorldTarget sc" and "a \<noteq> dummy_position sc"
    and "a \<noteq> dummy_scale sc" and "a \<notin> currentPos ` set ds"
  shows "fst (forEach (\<lambda>d i. particle_frame isExploded state delta speed sc (rnd i) d i) ds i sm) a
         = fst sm a"
  using assms
proof (induction ds arbitrary: i sm)
  case Nil
  then show ?case by simp
next
  case (Cons d ds)
  then show ?case by (simp add: particle_frame_other)
qed

lemma separated_Cons:
  assumes "distinct (scratch_addrs sc @ concat (map particle_addrs (d # ds)))"
  shows "distinct (scratch_addrs sc @ concat (map particle_addrs ds))"
    and "set (particle_addrs d) \<inter> set (scratch_addrs sc) = {}"
    and "distinct (particle_addrs d)"
    and "\<forall>e \<in> set ds. set (particle_addrs d) \<inter> set (particle_addrs e) = {}"
  using assms by auto

lemma forEach_currentPos:
  assumes "distinct (scratch_addrs sc @ concat (map particle_addrs ds))"
    and "fst sm (camLocalPos sc) = worldToLocal state (camera_position state)"
    and "k < length ds"
  shows "fst (forEach (\<lambda>d i. particle_frame isExploded state delta speed sc (rnd i) d i) ds i sm)
           (currentPos (ds ! k))
         = Vector3_lerp (fst sm (currentPos (ds ! k)))
             (desired_position isExploded state (ds ! k) (i + k) (fst sm))
             (delta * speed * (0.8 + rnd (i + k) * 0.4))"
  using assms
proof (induction ds arbitrary: i sm k)
  case Nil
  then show ?case by simp
next
  case (Cons d ds)
  let ?F = "\<lambda>d i. particle_frame isExploded state delta speed sc (rnd i) d i"
  let ?sm = "particle_frame isExploded state delta speed sc (rnd i) d i sm"
  note sep = separated_Cons [OF Cons.prems(1)]
  have dsc: "home d \<notin> set (scratch_addrs sc)" "offset d \<notin> set (scratch_addrs sc)"
    "fixedTarget d \<notin> set (scratch_addrs sc)" "currentPos d \<notin> set (scratch_addrs sc)"
    using sep(2) by (auto simp add: particle_addrs_def)
  have scd: "distinct (scratch_addrs sc)" using Cons.prems(1) by simp
  show ?case
  proof (cases k)
    case 0
    have notin: "currentPos d \<notin> currentPos ` set ds"
    proof
      assume "currentPos d \<in> currentPos ` set ds"
      then obtain e where e: "e \<in> set ds" "currentPos d = currentPos e" by auto
      with sep(4) show False by (auto simp add: particle_addrs_def)
    qed
    have "fst (forEach ?F (d # ds) i sm) (currentPos d) = fst ?sm (currentPos d)"
      using dsc(4) notin by (simp add: forEach_other scratch_addrs_def)
    also have "\<dots> = Vector3_lerp (fst sm (currentPos d))
             (set_target isExploded state sc d i (fst sm) (tempVec sc))
             (delta * speed * (0.8 + rnd i * 0.4))"
      using dsc(4) by (simp add: particle_frame_currentPos scratch_addrs_def)
    also have "set_target isExploded state sc d i (fst sm) (tempVec sc)
                = desired_position isExploded state d i (fst sm)"
      using dsc scd Cons.prems(2) by (intro set_target_tempVec) (auto simp add: scratch_addrs_def)
    finally show ?thesis using 0 by simp
  next
    case (Suc k')
    then have k': "k' < length ds" using Cons.prems(3) by simp
    let ?e = "ds ! k'"
    have e: "?e \<in> set ds" using k' by simp
    have esc: "set (particle_addrs ?e) \<inter> set (scratch_addrs sc) = {}"
      using sep(1) e by auto
    have ed: "set (particle_addrs d) \<inter> set (particle_addrs ?e) = {}"
      using sep(4) e by blast
    have keep: "fst ?sm a = fst sm a" if "a \<in> set (particle_addrs ?e) \<or> a = camLocalPos sc" for a
    proof -
      have "a \<noteq> currentPos d" using that ed dsc(4) by (auto simp add: particle_addrs_def scratch_addrs_def)
      moreover have "a \<noteq> tempVec sc" "a \<noteq> tempWorldTarget sc" "a \<noteq> dummy_position sc"
        "a \<noteq> dummy_scale sc"
        using that esc scd by (auto simp add: scratch_addrs_def)
      ultimately show ?thesis by (simp add: particle_frame_other)
    qed
    have cam: "fst ?sm (camLocalPos sc) = worldToLocal state (camera_position state)"
      using keep [of "camLocalPos sc"] Cons.prems(2) by simp
    have "fst (forEach ?F (d # ds) i sm) (currentPos ?e)
          = fst (forEach ?F ds (Suc i) ?sm) (currentPos ?e)" by simp
    also have "\<dots> = Vector3_lerp (fst ?sm (currentPos ?e))
             (desired_position isExploded state ?e (Suc i + k') (fst ?sm))
             (delta * speed * (0.8 + rnd (Suc i + k') * 0.4))"
      using Cons.IH [OF sep(1) cam k'] .
    also have "fst ?sm (currentPos ?e) = fst sm (currentPos ?e)"
      by (rule keep) (simp add: particle_addrs_def)
    also have "desired_position isExploded state ?e (Suc i + k') (fst ?sm)
               = desired_position isExploded state ?e (Suc i + k') (fst sm)"
      by (rule desired_position_cong) (simp_all add: keep particle_addrs_def)
    finally show ?thesis using Suc by simp
  qed
qed

subsection \<open>What one frame writes\<close>

lemma useFrame_unmounted:
  "meshRef hp = None \<Longrightarrow> useFrame_HeartParticles isExploded state delta rnd hp = hp"
  by (simp add: useFrame_HeartParticles_def)

lemma useFrame_mem:
  assumes "meshRef hp = Some mesh"
  shows "mem (useFrame_HeartParticles isExploded state delta rnd hp)
         = fst (forEach (\<lambda>d i. particle_frame isExploded state delta (if isExploded then 3 else 6)
                                  (scr hp) (rnd i) d i)
                  (data hp) 0
                  ((mem hp)(camLocalPos (scr hp) := worldToLocal state (camera_position state)), mesh))"
  using assms by (simp add: useFrame_HeartParticles_def Let_def split_def)

lemma useFrame_data:
  "data (useFrame_HeartParticles isExploded state delta rnd hp) = data hp"
  by (cases "meshRef hp") (simp_all add: useFrame_HeartParticles_def Let_def split_def)

lemma useFrame_scr:
  "scr (useFrame_HeartParticles isExploded state delta rnd hp) = scr hp"
  by (cases "meshRef hp") (simp_all add: useFrame_HeartParticles_def Let_def split_def)

lemma useFrame_meshRef:
  "(meshRef (useFrame_HeartParticles isExploded state delta rnd hp) = None) = (meshRef hp = None)"
  by (cases "meshRef hp") (simp_all add: useFrame_HeartParticles_def Let_def split_def)

lemma useFrame_separated:
  "separated (useFrame_HeartParticles isExploded state delta rnd hp) = separated hp"
  by (simp add: separated_def useFrame_data useFrame_scr)

lemma useFrame_other:
  assumes "a \<notin> set (scratch_addrs (scr hp))" and "a \<notin> currentPos ` set (data hp)"
  shows "mem (useFrame_HeartParticles isExploded state delta rnd hp) a = mem hp a"
proof (cases "meshRef hp")
  case None
  then show ?thesis by (simp add: useFrame_unmounted)
next
  case (Some mesh)
  from assms(1) have "a \<noteq> tempVec (scr hp)" "a \<noteq> tempWorldTarget (scr hp)"
    "a \<noteq> dummy_position (scr hp)" "a \<noteq> dummy_scale (scr hp)" "a \<noteq> camLocalPos (scr hp)"
    by (auto simp add: scratch_addrs_def)
  then show ?thesis
    using assms(2) by (simp add: useFrame_mem [OF Some] forEach_other)
qed

lemma separated_particle:
  assumes "separated hp" and "d \<in> set (data hp)"
  shows "set (particle_addrs d) \<inter> set (scratch_addrs (scr hp)) = {}"
    and "distinct (particle_addrs d)"
    and "\<forall>e \<in> set (data hp). currentPos e \<in> set (particle_addrs d) \<longrightarrow> e = d"
proof -
  from assms(2) obtain xs ys where sp: "data hp = xs @ d # ys"
    by (auto simp add: in_set_conv_decomp)
  from assms(1) show "set (particle_addrs d) \<inter> set (scratch_addrs (scr hp)) = {}"
    unfolding separated_def sp by auto
  from assms(1) show "distinct (particle_addrs d)"
    unfolding separated_def sp by auto
  from assms(1) have dis: "distinct (concat (map particle_addrs xs) @ particle_addrs d @ concat (map particle_addrs ys))"
    unfolding separated_def sp by simp
  show "\<forall>e \<in> set (data hp). currentPos e \<in> set (particle_addrs d) \<longrightarrow> e = d"
  proof (intro ballI impI)
    fix e assume e: "e \<in> set (data hp)" and c: "currentPos e \<in> set (particle_addrs d)"
    have ce: "currentPos e \<in> set (particle_addrs e)" by (simp add: particle_addrs_def)
    from e sp consider "e \<in> set xs" | "e = d" | "e \<in> set ys" by auto
    then show "e = d"
    proof cases
      case 1
      then have "currentPos e \<in> set (concat (map particle_addrs xs))" using ce by auto
      with dis c show ?thesis by auto
    next
      case 2 then show ?thesis .
    next
      case 3
      then have "currentPos e \<in> set (concat (map particle_addrs ys))" using ce by auto
      with dis c show ?thesis by auto
    qed
  qed
qed

lemma useFrame_descriptor:
  assumes "separated hp" and "d \<in> set (data hp)"
  shows "mem (useFrame_HeartParticles isExploded state delta rnd hp) (home d) = mem hp (home d)"
    and "mem (useFrame_HeartParticles isExploded state delta rnd hp) (offset d) = mem hp (offset d)"
    and "mem (useFrame_HeartParticles isExploded state delta rnd hp) (fixedTarget d) = mem hp (fixedTarget d)"
proof -
  note sp = separated_particle [OF assms]
  have a: "a \<notin> set (scratch_addrs (scr hp)) \<and> a \<notin> currentPos ` set (data hp)"
    if "a \<in> {home d, offset d, fixedTarget d}" for a
  proof
    show "a \<notin> set (scratch_addrs (scr hp))"
      using that sp(1) by (auto simp add: particle_addrs_def)
    show "a \<notin> currentPos ` set (data hp)"
    proof
      assume "a \<in> currentPos ` set (data hp)"
      then obtain e where e: "e \<in> set (data hp)" "a = currentPos e" by auto
      with that sp(3) have "e = d" by (auto simp add: particle_addrs_def)
      with e that sp(2) show False by (auto simp add: particle_addrs_def)
    qed
  qed
  show "mem (useFrame_HeartParticles isExploded state delta rnd hp) (home d) = mem hp (home d)"
    using a [of "home d"] by (simp add: useFrame_other)
  show "mem (useFrame_HeartParticles isExploded state delta rnd hp) (offset d) = mem hp (offset d)"
    using a [of "offset d"] by (simp add: useFrame_other)
  show "mem (useFrame_HeartParticles isExploded state delta rnd hp) (fixedTarget d) = mem hp (fixedTarget d)"
    using a [of "fixedTarget d"] by (simp add: useFrame_other)
qed

lemma useFrame_currentPos:
  assumes "separated hp" and "meshRef hp = Some mesh" and "k < length (data hp)"
  shows "mem (useFrame_HeartParticles isExploded state delta rnd hp) (currentPos (data hp ! k))
         = Vector3_lerp (mem hp (currentPos (data hp ! k)))
             (desired_position isExploded state (data hp ! k) k (mem hp))
             (delta * (if isExploded then 3 else 6) * (0.8 + rnd k * 0.4))"
proof -
  let ?d = "data hp ! k"
  let ?st = "(mem hp)(camLocalPos (scr hp) := worldToLocal state (camera_position state))"
  have d: "?d \<in> set (data hp)" using assms(3) by simp
  note sp = separated_particle [OF assms(1) d]
  have ne: "a \<noteq> camLocalPos (scr hp)" if "a \<in> set (particle_addrs ?d)" for a
    using that sp(1) by (auto simp add: scratch_addrs_def)
  have st: "?st a = mem hp a" if "a \<in> set (particle_addrs ?d)" for a
    using ne [OF that] by simp
  have dist: "distinct (scratch_addrs (scr hp) @ concat (map particle_addrs (data hp)))"
    using assms(1) by (simp add: separated_def)
  have cam: "fst (?st, mesh) (camLocalPos (scr hp)) = worldToLocal state (camera_position state)"
    by simp
  note fe = forEach_currentPos [OF dist cam assms(3), of isExploded delta
      "if isExploded then 3 else 6" rnd 0]
  have cp: "?st (currentPos ?d) = mem hp (currentPos ?d)"
    by (rule st) (simp add: particle_addrs_def)
  have dp: "desired_position isExploded state ?d k ?st
             = desired_position isExploded state ?d k (mem hp)"
  proof (rule desired_position_cong)
    show "?st (home ?d) = mem hp (home ?d)" by (rule st) (simp add: particle_addrs_def)
    show "?st (offset ?d) = mem hp (offset ?d)" by (rule st) (simp add: particle_addrs_def)
    show "?st (fixedTarget ?d) = mem hp (fixedTarget ?d)" by (rule st) (simp add: particle_addrs_def)
  qed
  have "mem (useFrame_HeartParticles isExploded state delta rnd hp) (currentPos ?d)
        = Vector3_lerp (?st (currentPos ?d))
             (desired_position isExploded state ?d k ?st)
             (delta * (if isExploded then 3 else 6) * (0.8 + rnd k * 0.4))"
    unfolding useFrame_mem [OF assms(2)] using fe by simp
  then show ?thesis unfolding cp dp .
qed

subsection \<open>Creation allocates every vector afresh\<close>

lemma create_home_result:
  "fst (create_home rnd g) = brk g"
  "brk (snd (create_home rnd g)) = Suc (brk g)"
  "calls (snd (create_home rnd g)) = calls g + 4"
  "a < brk g \<Longrightarrow> heap (snd (create_home rnd g)) a = heap g a"
  by (simp_all add: create_home_def Math_random_def new_Vector3_def Vector3_set_def Let_def split_def)

lemma create_archetype_addrs:
  "fst (snd (fst (create_archetype rnd g))) = brk g"
  "brk g < snd (snd (fst (create_archetype rnd g)))"
  "snd (snd (fst (create_archetype rnd g))) < brk (snd (create_archetype rnd g))"
  "a < brk g \<Longrightarrow> heap (snd (create_archetype rnd g)) a = heap g a"
  by (simp_all add: create_archetype_def Math_random_def new_Vector3_def Vector3_set_def Let_def split_def)


lemma create_particle_fields:
  "home (fst (create_particle rnd hearts g)) = brk g"
  "offset (fst (create_particle rnd hearts g))
     = fst (snd (fst (create_archetype rnd (snd (create_home rnd g)))))"
  "fixedTarget (fst (create_particle rnd hearts g))
     = snd (snd (fst (create_archetype rnd (snd (create_home rnd g)))))"
  "type (fst (create_particle rnd hearts g))
     = fst (fst (create_archetype rnd (snd (create_home rnd g))))"
  "currentPos (fst (create_particle rnd hearts g))
     = brk (snd (create_archetype rnd (snd (create_home rnd g))))"
  "brk (snd (create_particle rnd hearts g))
     = Suc (brk (snd (create_archetype rnd (snd (create_home rnd g)))))"
  by (simp_all add: create_particle_def Math_random_def new_Vector3_def Let_def split_def
      create_home_result)

lemma create_particle_fresh:
  "distinct (particle_addrs (fst (create_particle rnd hearts g)))"
  "\<forall>a \<in> set (particle_addrs (fst (create_particle rnd hearts g))).
      brk g \<le> a \<and> a < brk (snd (create_particle rnd hearts g))"
  "brk g < brk (snd (create_particle rnd hearts g))"
proof -
  let ?g1 = "snd (create_home rnd g)"
  have b: "brk ?g1 = Suc (brk g)" by (rule create_home_result)
  note ar = create_archetype_addrs(1-3) [where rnd = rnd and g = ?g1, unfolded b]
  show "distinct (particle_addrs (fst (create_particle rnd hearts g)))"
    using ar by (simp add: particle_addrs_def create_particle_fields)
  show "\<forall>a \<in> set (particle_addrs (fst (create_particle rnd hearts g))).
      brk g \<le> a \<and> a < brk (snd (create_particle rnd hearts g))"
    using ar by (simp add: particle_addrs_def create_particle_fields)
  show "brk g < brk (snd (create_particle rnd hearts g))"
    using ar by (simp add: create_particle_fields)
qed



lemma create_loop_Suc:
  "create_loop rnd hearts (Suc n) (temp, g)
   = create_loop rnd hearts n (temp @ [fst (create_particle rnd hearts g)],
                               snd (create_particle rnd hearts g))"
  by (simp add: split_def Let_def)

lemma create_loop_inv:
  assumes "distinct (concat (map particle_addrs temp))"
    and "\<forall>a \<in> set (concat (map particle_addrs temp)). a < brk g"
  shows "distinct (concat (map particle_addrs (fst (create_loop rnd hearts n (temp, g)))))
       \<and> (\<forall>a \<in> set (concat (map particle_addrs (fst (create_loop rnd hearts n (temp, g))))).
             a < brk (snd (create_loop rnd hearts n (temp, g))))"
  using assms
proof (induction n arbitrary: temp g)
  case 0
  then show ?case by simp
next
  case (Suc n)
  let ?p = "fst (create_particle rnd hearts g)"
  let ?g = "snd (create_particle rnd hearts g)"
  note fr = create_particle_fresh [where rnd = rnd and hearts = hearts and g = g]
  have d: "distinct (concat (map particle_addrs (temp @ [?p])))"
    using Suc.prems fr(1,2) by fastforce
  have b: "\<forall>a \<in> set (concat (map particle_addrs (temp @ [?p]))). a < brk ?g"
    using Suc.prems(2) fr(2,3) by fastforce
  show ?case
    unfolding create_loop_Suc using Suc.IH [OF d b] .
qed

lemma create_loop_length:
  "length (fst (create_loop rnd hearts n (temp, g))) = length temp + n"
proof (induction n arbitrary: temp g)
  case 0
  then show ?case by simp
next
  case (Suc n)
  show ?case unfolding create_loop_Suc by (simp add: Suc.IH)
qed

lemma create_scratch_addrs:
  "scratch_addrs (fst (create_scratch g)) = [brk g, brk g + 1, brk g + 2, brk g + 3, brk g + 4]"
  by (simp add: create_scratch_def scratch_addrs_def new_Vector3_def Let_def split_def)


lemma HeartParticles_create_fields:
  "data (HeartParticles_create n rnd hearts)
     = fst (create_loop rnd hearts n ([], \<lparr>heap = (\<lambda>a. Vector3 0 0 0), brk = 0, calls = 0\<rparr>))"
  "scr (HeartParticles_create n rnd hearts)
     = fst (create_scratch (snd (create_loop rnd hearts n ([], \<lparr>heap = (\<lambda>a. Vector3 0 0 0), brk = 0, calls = 0\<rparr>))))"
  "mem (HeartParticles_create n rnd hearts)
     = heap (snd (create_scratch (snd (create_loop rnd hearts n ([], \<lparr>heap = (\<lambda>a. Vector3 0 0 0), brk = 0, calls = 0\<rparr>)))))"
  "meshRef (HeartParticles_create n rnd hearts) = None"
  by (simp_all add: HeartParticles_create_def Let_def split_def)

lemma separated_create:
  "separated (HeartParticles_create n rnd hearts)"
proof -
  let ?g0 = "\<lparr>heap = (\<lambda>a. Vector3 0 0 0), brk = 0, calls = 0\<rparr>"
  let ?r = "create_loop rnd hearts n ([], ?g0)"
  have inv: "distinct (concat (map particle_addrs (fst ?r)))
       \<and> (\<forall>a \<in> set (concat (map particle_addrs (fst ?r))). a < brk (snd ?r))"
    by (rule create_loop_inv) simp_all
  show ?thesis
    unfolding separated_def HeartParticles_create_fields create_scratch_addrs
    using inv by fastforce
qed

lemma length_data_create:
  "length (data (HeartParticles_create n rnd hearts)) = n"
  by (simp add: HeartParticles_create_fields create_loop_length)

lemma mount_fields:
  "data (mount hp) = data hp" "scr (mount hp) = scr hp" "mem (mount hp) = mem hp"
  "meshRef (mount hp) \<noteq> None" "separated (mount hp) = separated hp"
  by (simp_all add: mount_def separated_def)

subsection \<open>Runs of frames\<close>

lemma run_frames_Suc:
  "run_frames fs (Suc n) hp
   = useFrame_HeartParticles (fst (fs n)) (fst (snd (fs n))) (fst (snd (snd (fs n))))
       (snd (snd (snd (fs n)))) (run_frames fs n hp)"
  by (simp add: split_def)

lemma run_frames_data: "data (run_frames fs n hp) = data hp"
  by (induction n) (simp_all add: split_def useFrame_data)

lemma run_frames_scr: "scr (run_frames fs n hp) = scr hp"
  by (induction n) (simp_all add: split_def useFrame_scr)

lemma run_frames_meshRef: "(meshRef (run_frames fs n hp) = None) = (meshRef hp = None)"
  by (induction n) (simp_all add: split_def useFrame_meshRef)

lemma run_frames_separated: "separated (run_frames fs n hp) = separated hp"
  by (simp add: separated_def run_frames_data run_frames_scr)

lemma run_frames_descriptor:
  assumes "separated hp" and "d \<in> set (data hp)"
  shows "mem (run_frames fs n hp) (home d) = mem hp (home d)
       \<and> mem (run_frames fs n hp) (offset d) = mem hp (offset d)
       \<and> mem (run_frames fs n hp) (fixedTarget d) = mem hp (fixedTarget d)"
proof (induction n)
  case 0
  show ?case by simp
next
  case (Suc n)
  have sep: "separated (run_frames fs n hp)" using assms(1) by (simp add: run_frames_separated)
  have d: "d \<in> set (data (run_frames fs n hp))" using assms(2) by (simp add: run_frames_data)
  show ?case
    unfolding run_frames_Suc useFrame_descriptor [OF sep d] using Suc.IH .
qed

lemma run_frames_currentPos:
  assumes "separated hp" and "meshRef hp \<noteq> None" and "k < length (data hp)"
  shows "mem (run_frames fs (Suc n) hp) (currentPos (data hp ! k))
         = Vector3_lerp (mem (run_frames fs n hp) (currentPos (data hp ! k)))
             (desired_position (fst (fs n)) (fst (snd (fs n))) (data hp ! k) k (mem hp))
             (fst (snd (snd (fs n))) * (if fst (fs n) then 3 else 6)
                * (0.8 + snd (snd (snd (fs n))) k * 0.4))"
proof -
  let ?hp = "run_frames fs n hp"
  have sep: "separated ?hp" using assms(1) by (simp add: run_frames_separated)
  from assms(2) obtain mesh where m: "meshRef ?hp = Some mesh"
    using run_frames_meshRef [of fs n hp] by auto
  have k: "k < length (data ?hp)" using assms(3) by (simp add: run_frames_data)
  have d: "data hp ! k \<in> set (data hp)" using assms(3) by simp
  note ds = run_frames_descriptor [OF assms(1) d, of fs n]
  have dp: "desired_position (fst (fs n)) (fst (snd (fs n))) (data hp ! k) k (mem ?hp)
          = desired_position (fst (fs n)) (fst (snd (fs n))) (data hp ! k) k (mem hp)"
    by (rule desired_position_cong) (simp_all add: ds)
  show ?thesis
    unfolding run_frames_Suc
    using useFrame_currentPos [OF sep m k, of "fst (fs n)" "fst (snd (fs n))"
        "fst (snd (snd (fs n)))" "snd (snd (snd (fs n)))"]
    by (simp add: run_frames_data dp)
qed

lemma run_frames_unmounted:
  "meshRef hp = None \<Longrightarrow> run_frames fs n hp = hp"
  by (induction n) (simp_all add: split_def useFrame_unmounted)

lemma mount_meshRef:
  "meshRef (mount hp) = Some \<lparr>instanceMatrix =
                            replicate (length (data hp)) (Vector3 0 0 0, (0, 0, 0), Vector3 1 1 1),
                          instanceMatrix_needsUpdate = False,
                          instanceColor = None,
                          instanceColor_needsUpdate = False\<rparr>"
  by (simp add: mount_def)

lemma demo_particles_facts:
  "separated demo_particles" "length (data demo_particles) = 2" "meshRef demo_particles \<noteq> None"
  by (simp_all add: demo_particles_def mount_fields separated_create length_data_create)

text \<open>
  Claim C6. Over any run of frames with any values of \<open>isExploded\<close>, the list of
  particle records is the one created (so the archetype and the objects behind home,
  offset and fixed target are the same), the vectors stored in home, offset and fixed
  target keep their values, and the only change to a current position in a frame is
  the interpolation step from its previous value (no change at all while the mesh is not
  mounted): a change of \<open>isExploded\<close> changes the desired position only.
\<close>

theorem frames_keep_descriptors:
  assumes "separated hp"
  shows "data (run_frames fs n hp) = data hp
    \<and> (\<forall>d \<in> set (data hp).
           mem (run_frames fs n hp) (home d) = mem hp (home d)
         \<and> mem (run_frames fs n hp) (offset d) = mem hp (offset d)
         \<and> mem (run_frames fs n hp) (fixedTarget d) = mem hp (fixedTarget d))
    \<and> (\<forall>k < length (data hp).
           mem (run_frames fs (Suc n) hp) (currentPos (data hp ! k))
           = (if meshRef hp = None then mem (run_frames fs n hp) (currentPos (data hp ! k))
              else Vector3_lerp (mem (run_frames fs n hp) (currentPos (data hp ! k)))
                     (desired_position (fst (fs n)) (fst (snd (fs n))) (data hp ! k) k (mem hp))
                     (fst (snd (snd (fs n))) * (if fst (fs n) then 3 else 6)
                        * (0.8 + snd (snd (snd (fs n))) k * 0.4))))"
proof (intro conjI ballI allI impI)
  show "data (run_frames fs n hp) = data hp" by (rule run_frames_data)
next
  fix d assume d: "d \<in> set (data hp)"
  note ds = run_frames_descriptor [OF assms d, of fs n]
  show "mem (run_frames fs n hp) (home d) = mem hp (home d)" using ds by simp
  show "mem (run_frames fs n hp) (offset d) = mem hp (offset d)" using ds by simp
  show "mem (run_frames fs n hp) (fixedTarget d) = mem hp (fixedTarget d)" using ds by simp
next
  fix k assume k: "k < length (data hp)"
  show "mem (run_frames fs (Suc n) hp) (currentPos (data hp ! k))
           = (if meshRef hp = None then mem (run_frames fs n hp) (currentPos (data hp ! k))
              else Vector3_lerp (mem (run_frames fs n hp) (currentPos (data hp ! k)))
                     (desired_position (fst (fs n)) (fst (snd (fs n))) (data hp ! k) k (mem hp))
                     (fst (snd (snd (fs n))) * (if fst (fs n) then 3 else 6)
                        * (0.8 + snd (snd (snd (fs n))) k * 0.4)))"
  proof (cases "meshRef hp = None")
    case True
    show ?thesis unfolding if_P [OF True] run_frames_unmounted [OF True] ..
  next
    case False
    show ?thesis
      unfolding if_not_P [OF False] by (rule run_frames_currentPos [OF assms False k])
  qed
qed

theorem frames_keep_descriptors_witness:
  "data (run_frames demo_frames 1 demo_particles) = data demo_particles
   \<and> mem (run_frames demo_frames 1 demo_particles) (home (data demo_particles ! 0))
       = mem demo_particles (home (data demo_particles ! 0))
   \<and> mem (run_frames demo_frames 1 demo_particles) (offset (data demo_particles ! 0))
       = mem demo_particles (offset (data demo_particles ! 0))
   \<and> mem (run_frames demo_frames 1 demo_particles) (fixedTarget (data demo_particles ! 0))
       = mem demo_particles (fixedTarget (data demo_particles ! 0))
   \<and> mem (run_frames demo_frames (Suc 1) demo_particles) (currentPos (data demo_particles ! 0))
       = Vector3_lerp (mem (run_frames demo_frames 1 demo_particles) (currentPos (data demo_particles ! 0)))
           (desired_position False demo_state (data demo_particles ! 0) 0 (mem demo_particles))
           (1 / 60 * 6 * (0.8 + 1 / 2 * 0.4))"
proof -
  note f = demo_particles_facts
  note t = frames_keep_descriptors [OF f(1), of demo_frames 1]
  have d: "data demo_particles ! 0 \<in> set (data demo_particles)" using f(2) by simp
  have k: "0 < length (data demo_particles)" using f(2) by simp
  have fs: "fst (demo_frames 1) = False" "fst (snd (demo_frames 1)) = demo_state"
    "fst (snd (snd (demo_frames 1))) = 1 / 60" "snd (snd (snd (demo_frames 1))) 0 = 1 / 2"
    by (simp_all add: demo_frames_def)
  from t have 1: "data (run_frames demo_frames 1 demo_particles) = data demo_particles"
    by (rule conjunct1)
  from t [THEN conjunct2, THEN conjunct1, THEN bspec, OF d]
  have 2: "mem (run_frames demo_frames 1 demo_particles) (home (data demo_particles ! 0))
       = mem demo_particles (home (data demo_particles ! 0))
   \<and> mem (run_frames demo_frames 1 demo_particles) (offset (data demo_particles ! 0))
       = mem demo_particles (offset (data demo_particles ! 0))
   \<and> mem (run_frames demo_frames 1 demo_particles) (fixedTarget (data demo_particles ! 0))
       = mem demo_particles (fixedTarget (data demo_particles ! 0))" .
  from t [THEN conjunct2, THEN conjunct2, THEN spec, THEN mp, OF k]
  have 3: "mem (run_frames demo_frames (Suc 1) demo_particles) (currentPos (data demo_particles ! 0))
       = Vector3_lerp (mem (run_frames demo_frames 1 demo_particles) (currentPos (data demo_particles ! 0)))
           (desired_position False demo_state (data demo_particles ! 0) 0 (mem demo_particles))
           (1 / 60 * 6 * (0.8 + 1 / 2 * 0.4))"
    unfolding fs if_not_P [OF f(3)] by simp
  from 1 2 3 show ?thesis by (intro conjI) simp_all
qed

subsection \<open>The archetype of a created particle\<close>

lemma create_home_calls:
  "calls (snd (create_home rnd g)) = calls g + 4"
  by (simp add: create_home_def Math_random_def new_Vector3_def Vector3_set_def Let_def split_def)

lemma create_archetype_type:
  "fst (fst (create_archetype rnd g))
   = (if rnd (calls g) < 0.116 then front else if rnd (calls g) < 0.537 then surround else scatter)"
  by (simp add: create_archetype_def Math_random_def new_Vector3_def Vector3_set_def Let_def split_def)

lemma create_particle_type:
  "type (fst (create_particle rnd hearts g))
   = (if rnd (calls g + 4) < 0.116 then front
      else if rnd (calls g + 4) < 0.537 then surround else scatter)"
  by (simp add: create_particle_fields create_archetype_type create_home_calls)

text \<open>
  Claim C4. The archetype of a created particle is decided by one draw \<open>u\<close> of
  \<open>Math.random()\<close> (the fifth of the iteration): for \<open>u\<close> in \<open>[0, 1)\<close> it is front
  exactly when \<open>u < 0.116\<close>, surround exactly when \<open>0.116 \<le> u < 0.537\<close> and scatter
  exactly when \<open>0.537 \<le> u < 1\<close>; the three intervals have the lengths 0.116, 0.421 and
  0.463.
\<close>

theorem archetype_partition:
  assumes "0 \<le> rnd (calls g + 4)" and "rnd (calls g + 4) < 1"
  shows "(type (fst (create_particle rnd hearts g)) = front) = (rnd (calls g + 4) < 0.116)
       \<and> (type (fst (create_particle rnd hearts g)) = surround)
           = (0.116 \<le> rnd (calls g + 4) \<and> rnd (calls g + 4) < 0.537)
       \<and> (type (fst (create_particle rnd hearts g)) = scatter)
           = (0.537 \<le> rnd (calls g + 4) \<and> rnd (calls g + 4) < 1)
       \<and> (0.537 :: real) - 0.116 = 0.421 \<and> (1 :: real) - 0.537 = 0.463"
  using assms by (simp add: create_particle_type)

theorem archetype_partition_witness:
  "type (fst (create_particle (\<lambda>k. 1 / 2) [] \<lparr>heap = (\<lambda>a. Vector3 0 0 0), brk = 0, calls = 0\<rparr>))
     = surround
   \<and> type (fst (create_particle (\<lambda>k. 116 / 1000) [] \<lparr>heap = (\<lambda>a. Vector3 0 0 0), brk = 0, calls = 0\<rparr>))
     = surround
   \<and> type (fst (create_particle (\<lambda>k. 537 / 1000) [] \<lparr>heap = (\<lambda>a. Vector3 0 0 0), brk = 0, calls = 0\<rparr>))
     = scatter
   \<and> type (fst (create_particle (\<lambda>k. 1 / 10) [] \<lparr>heap = (\<lambda>a. Vector3 0 0 0), brk = 0, calls = 0\<rparr>))
     = front"
proof -
  let ?g = "\<lparr>heap = (\<lambda>a. Vector3 0 0 0), brk = 0, calls = 0\<rparr>"
  have 1: "type (fst (create_particle (\<lambda>k. 1 / 2) [] ?g)) = surround"
    using archetype_partition [of "\<lambda>k. 1 / 2" ?g "[]"] by simp
  have 2: "type (fst (create_particle (\<lambda>k. 116 / 1000) [] ?g)) = surround"
    using archetype_partition [of "\<lambda>k. 116 / 1000" ?g "[]"] by simp
  have 3: "type (fst (create_particle (\<lambda>k. 537 / 1000) [] ?g)) = scatter"
    using archetype_partition [of "\<lambda>k. 537 / 1000" ?g "[]"] by simp
  have 4: "type (fst (create_particle (\<lambda>k. 1 / 10) [] ?g)) = front"
    using archetype_partition [of "\<lambda>k. 1 / 10" ?g "[]"] by simp
  from 1 2 3 4 show ?thesis by (intro conjI)
qed

subsection \<open>Gathering\<close>


lemma desired_position_gathered:
  "desired_position False state d i st = st (home d)"
  by (simp add: desired_position_def)




subsection \<open>Subdividing a frame\<close>

lemma lerp_twice:
  "Vector3_lerp (Vector3_lerp p h (f / 2)) h (f / 2) = Vector3_lerp p h (f - f\<^sup>2 / 4)"
proof -
  have e: "x + (y - x) * (f / 2) + (y - (x + (y - x) * (f / 2))) * (f / 2)
           = x + (y - x) * (f - f\<^sup>2 / 4)" for x y :: real
    by (simp add: power2_eq_square field_simps)
  show ?thesis
    unfolding Vector3_lerp_def Vector3.sel Vector3.inject
    using e [of "vx p" "vx h"] e [of "vy p" "vy h"] e [of "vz p" "vz h"] by (intro conjI)
qed

lemma lerp_eq_iff:
  "(Vector3_lerp p h f = Vector3_lerp p h f') = (f = f' \<or> p = h)"
proof (cases p; cases h)
  fix x y z x' y' z'
  assume p: "p = Vector3 x y z" and h: "h = Vector3 x' y' z'"
  have e: "(u + (v - u) * f = u + (v - u) * f') = (f = f' \<or> u = v)" for u v :: real
    by auto
  show ?thesis unfolding p h by (auto simp add: Vector3_lerp_def e)
qed

lemma useFrame_twice_gathered:
  assumes "separated hp" and "meshRef hp = Some mesh" and "k < length (data hp)"
  shows "mem (useFrame_HeartParticles False state2 (delta / 2) rnd
               (useFrame_HeartParticles False state1 (delta / 2) rnd hp))
           (currentPos (data hp ! k))
         = Vector3_lerp (Vector3_lerp (mem hp (currentPos (data hp ! k)))
                             (mem hp (home (data hp ! k)))
                             (delta / 2 * 6 * (0.8 + rnd k * 0.4)))
             (mem hp (home (data hp ! k)))
             (delta / 2 * 6 * (0.8 + rnd k * 0.4))"
proof -
  let ?hp = "useFrame_HeartParticles False state1 (delta / 2) rnd hp"
  have sep: "separated ?hp" using assms(1) by (simp add: useFrame_separated)
  have "meshRef ?hp \<noteq> None" using assms(2) by (simp add: useFrame_meshRef)
  then obtain mesh' where m: "meshRef ?hp = Some mesh'" by auto
  have k: "k < length (data ?hp)" using assms(3) by (simp add: useFrame_data)
  have d: "data hp ! k \<in> set (data hp)" using assms(3) by simp
  have h: "mem ?hp (home (data hp ! k)) = mem hp (home (data hp ! k))"
    by (rule useFrame_descriptor(1) [OF assms(1) d])
  show ?thesis
    using useFrame_currentPos [OF sep m k, of False state2 "delta / 2" rnd]
      useFrame_currentPos [OF assms, of False state1 "delta / 2" rnd]
    by (simp add: useFrame_data desired_position_gathered h)
qed

lemma displaced_particles_facts:
  "separated displaced_particles"
  "meshRef displaced_particles
     = Some \<lparr>instanceMatrix = [(Vector3 0 0 0, (0, 0, 0), Vector3 1 1 1)],
             instanceMatrix_needsUpdate = False,
             instanceColor = None,
             instanceColor_needsUpdate = False\<rparr>"
  "length (data displaced_particles) = 1"
  "currentPos (data displaced_particles ! 0) = 3"
  "home (data displaced_particles ! 0) = 0"
  "fixedTarget (data displaced_particles ! 0) = 2"
  "type (data displaced_particles ! 0) = scatter"
  "color (data displaced_particles ! 0) = Color 1 (1 / 2) (1 / 4)"
  "phase (data displaced_particles ! 0) = 0"
  "mem displaced_particles 3 = Vector3 1 0 0"
  "mem displaced_particles 0 = Vector3 0 0 0"
  "mem displaced_particles 2 = Vector3 0 8 0"
  by (simp_all add: displaced_particles_def separated_def scratch_addrs_def particle_addrs_def)

text \<open>
  Claim C8, as the code has it. The factor is linear in \<open>delta\<close>, so the step does not
  commute with subdividing \<open>delta\<close>. In the gathered state, with the same random value
  and \<open>f = delta * 6 * (0.8 + r * 0.4)\<close>, one frame of \<open>delta\<close> interpolates toward
  home with factor \<open>f\<close>, two frames of \<open>delta / 2\<close> with factor \<open>f - f\<^sup>2 / 4\<close>; the
  two results agree only when \<open>f = 0\<close> or the particle is already at home.
\<close>

theorem half_frames_compose:
  fixes delta :: real and rnd :: "nat \<Rightarrow> real"
  defines "f \<equiv> \<lambda>k. delta * 6 * (0.8 + rnd k * 0.4)"
  assumes "separated hp" and "meshRef hp = Some mesh" and "k < length (data hp)"
  shows "mem (useFrame_HeartParticles False state delta rnd hp) (currentPos (data hp ! k))
           = Vector3_lerp (mem hp (currentPos (data hp ! k))) (mem hp (home (data hp ! k))) (f k)
    \<and> mem (useFrame_HeartParticles False state2 (delta / 2) rnd
               (useFrame_HeartParticles False state1 (delta / 2) rnd hp))
           (currentPos (data hp ! k))
           = Vector3_lerp (mem hp (currentPos (data hp ! k))) (mem hp (home (data hp ! k)))
               (f k - (f k)\<^sup>2 / 4)
    \<and> ((mem (useFrame_HeartParticles False state delta rnd hp) (currentPos (data hp ! k))
          = mem (useFrame_HeartParticles False state2 (delta / 2) rnd
               (useFrame_HeartParticles False state1 (delta / 2) rnd hp))
              (currentPos (data hp ! k)))
         = (f k = 0 \<or> mem hp (currentPos (data hp ! k)) = mem hp (home (data hp ! k))))"
proof -
  have one: "mem (useFrame_HeartParticles False state delta rnd hp) (currentPos (data hp ! k))
           = Vector3_lerp (mem hp (currentPos (data hp ! k))) (mem hp (home (data hp ! k))) (f k)"
    using useFrame_currentPos [OF assms(2-4), of False state delta rnd]
    by (simp add: desired_position_gathered f_def)
  have half: "delta / 2 * 6 * (0.8 + rnd k * 0.4) = f k / 2" by (simp add: f_def)
  have two: "mem (useFrame_HeartParticles False state2 (delta / 2) rnd
               (useFrame_HeartParticles False state1 (delta / 2) rnd hp))
           (currentPos (data hp ! k))
           = Vector3_lerp (mem hp (currentPos (data hp ! k))) (mem hp (home (data hp ! k)))
               (f k - (f k)\<^sup>2 / 4)"
    unfolding useFrame_twice_gathered [OF assms(2-4)] half by (rule lerp_twice)
  have e: "(f k = f k - (f k)\<^sup>2 / 4) = (f k = 0)" by simp
  show ?thesis
    unfolding one two lerp_eq_iff e by simp
qed

theorem half_frames_compose_witness:
  "mem (useFrame_HeartParticles False demo_state (1 / 10) (\<lambda>i. 1 / 2) displaced_particles) 3
     = Vector3 (2 / 5) 0 0
   \<and> mem (useFrame_HeartParticles False demo_state (1 / 10 / 2) (\<lambda>i. 1 / 2)
           (useFrame_HeartParticles False demo_state (1 / 10 / 2) (\<lambda>i. 1 / 2) displaced_particles)) 3
     = Vector3 (49 / 100) 0 0"
proof -
  note f = displaced_particles_facts
  have k: "0 < length (data displaced_particles)" using f(3) by simp
  note t = half_frames_compose [OF f(1) f(2) k, of demo_state "1 / 10" "\<lambda>i. 1 / 2" demo_state demo_state]
  have 1: "mem (useFrame_HeartParticles False demo_state (1 / 10) (\<lambda>i. 1 / 2) displaced_particles) 3
     = Vector3 (2 / 5) 0 0"
    using t [THEN conjunct1] unfolding f by (simp add: Vector3_lerp_def)
  have 2: "mem (useFrame_HeartParticles False demo_state (1 / 10 / 2) (\<lambda>i. 1 / 2)
           (useFrame_HeartParticles False demo_state (1 / 10 / 2) (\<lambda>i. 1 / 2) displaced_particles)) 3
     = Vector3 (49 / 100) 0 0"
    using t [THEN conjunct2, THEN conjunct1] unfolding f by (simp add: Vector3_lerp_def power2_eq_square)
  from 1 2 show ?thesis by (intro conjI)
qed

text \<open>
  Claim C8 as stated fails: for the particle at \<open>(1, 0, 0)\<close> gathering to the origin, one
  frame of a tenth of a second leaves it at \<open>0.4\<close>, two frames of a twentieth at \<open>0.49\<close>.
\<close>

theorem frame_rate_dependence:
  "mem (useFrame_HeartParticles False demo_state (1 / 10) (\<lambda>i. 1 / 2) displaced_particles) 3
   \<noteq> mem (useFrame_HeartParticles False demo_state (1 / 20) (\<lambda>i. 1 / 2)
           (useFrame_HeartParticles False demo_state (1 / 20) (\<lambda>i. 1 / 2) displaced_particles)) 3"
proof -
  note f = displaced_particles_facts
  have k: "0 < length (data displaced_particles)" using f(3) by simp
  have 1: "mem (useFrame_HeartParticles False demo_state (1 / 10) (\<lambda>i. 1 / 2) displaced_particles) 3
     = Vector3 (2 / 5) 0 0"
    using useFrame_currentPos [OF f(1) f(2) k, of False demo_state "1 / 10" "\<lambda>i. 1 / 2"]
    unfolding f by (simp add: Vector3_lerp_def desired_position_gathered f)
  have 2: "mem (useFrame_HeartParticles False demo_state (1 / 20) (\<lambda>i. 1 / 2)
           (useFrame_HeartParticles False demo_state (1 / 20) (\<lambda>i. 1 / 2) displaced_particles)) 3
     = Vector3 (49 / 100) 0 0"
    using useFrame_twice_gathered [OF f(1) f(2) k, of demo_state "1 / 10" "\<lambda>i. 1 / 2" demo_state]
    unfolding f by (simp add: Vector3_lerp_def)
  show ?thesis unfolding 1 2 by simp
qed

subsection \<open>The colour buffer\<close>

lemma setColorAt_colorBuffer:
  "colorBuffer (setColorAt i c mesh) = (colorBuffer mesh)[i := c]"
  "instanceColor (setColorAt i c mesh) = Some ((colorBuffer mesh)[i := c])"
  by (simp_all add: setColorAt_def colorBuffer_def split: option.splits)

lemma setMatrixAt_colorBuffer:
  "colorBuffer (setMatrixAt i m mesh) = colorBuffer mesh"
  by (simp add: setMatrixAt_def colorBuffer_def split: option.splits)

lemma particle_frame_colorBuffer:
  "colorBuffer (snd (particle_frame isExploded state delta speed sc r d i sm))
   = (colorBuffer (snd sm))
       [i := Color_multiplyScalar (color d)
               (1.5 + (if sin (elapsedTime state * 5 + phase d) > 0.5
                       then sin (elapsedTime state * 5 + phase d) * 2 else 0))]"
  "instanceColor (snd (particle_frame isExploded state delta speed sc r d i sm))
   = Some (colorBuffer (snd (particle_frame isExploded state delta speed sc r d i sm)))"
  by (simp_all add: particle_frame_def Let_def setColorAt_colorBuffer setMatrixAt_colorBuffer)

lemma forEach_colorBuffer_length:
  "length (colorBuffer (snd (forEach (\<lambda>d i. particle_frame isExploded state delta speed sc (rnd i) d i) ds i sm)))
   = length (colorBuffer (snd sm))"
  by (induction ds arbitrary: i sm) (simp_all add: particle_frame_colorBuffer)

lemma forEach_colorBuffer_below:
  "j < i \<Longrightarrow>
   colorBuffer (snd (forEach (\<lambda>d i. particle_frame isExploded state delta speed sc (rnd i) d i) ds i sm)) ! j
   = colorBuffer (snd sm) ! j"
  by (induction ds arbitrary: i sm) (simp_all add: particle_frame_colorBuffer)

lemma forEach_instanceColor:
  "ds \<noteq> [] \<Longrightarrow>
   instanceColor (snd (forEach (\<lambda>d i. particle_frame isExploded state delta speed sc (rnd i) d i) ds i sm))
   = Some (colorBuffer (snd (forEach (\<lambda>d i. particle_frame isExploded state delta speed sc (rnd i) d i) ds i sm)))"
proof (induction ds arbitrary: i sm)
  case Nil
  then show ?case by simp
next
  case (Cons d ds)
  show ?case
  proof (cases "ds = []")
    case True
    then show ?thesis by (simp add: particle_frame_colorBuffer(2))
  next
    case False
    then show ?thesis using Cons.IH by simp
  qed
qed

lemma forEach_colorBuffer_nth:
  assumes "k < length ds" and "i + k < length (colorBuffer (snd sm))"
  shows "colorBuffer (snd (forEach (\<lambda>d i. particle_frame isExploded state delta speed sc (rnd i) d i) ds i sm)) ! (i + k)
   = Color_multiplyScalar (color (ds ! k))
               (1.5 + (if sin (elapsedTime state * 5 + phase (ds ! k)) > 0.5
                       then sin (elapsedTime state * 5 + phase (ds ! k)) * 2 else 0))"
  using assms
proof (induction ds arbitrary: i sm k)
  case Nil
  then show ?case by simp
next
  case (Cons d ds)
  show ?case
  proof (cases k)
    case 0
    then show ?thesis
      using Cons.prems(2)
      by (simp add: forEach_colorBuffer_below particle_frame_colorBuffer(1))
  next
    case (Suc k')
    then have k': "k' < length ds" using Cons.prems(1) by simp
    have l: "Suc i + k' < length (colorBuffer (snd (particle_frame isExploded state delta speed sc (rnd i) d i sm)))"
      using Cons.prems(2) Suc by (simp add: particle_frame_colorBuffer(1))
    show ?thesis
      using Cons.IH [OF k' l] Suc by simp
  qed
qed

lemma useFrame_instanceColor:
  assumes "meshRef hp = Some mesh" and "data hp \<noteq> []"
  shows "\<exists>mesh'. meshRef (useFrame_HeartParticles isExploded state delta rnd hp) = Some mesh'
     \<and> instanceColor mesh'
        = Some (colorBuffer (snd (forEach (\<lambda>d i. particle_frame isExploded state delta
                                  (if isExploded then 3 else 6) (scr hp) (rnd i) d i)
                  (data hp) 0
                  ((mem hp)(camLocalPos (scr hp) := worldToLocal state (camera_position state)), mesh))))"
  using assms forEach_instanceColor [OF assms(2), of isExploded state delta "if isExploded then 3 else 6"
      "scr hp" rnd 0 "((mem hp)(camLocalPos (scr hp) := worldToLocal state (camera_position state)), mesh)"]
  by (simp add: useFrame_HeartParticles_def Let_def split_def)

text \<open>
  Claim C10. After a frame on a mounted mesh, the colour written for particle \<open>k\<close> is
  its base colour times \<open>1.5 + (if twinkle > 0.5 then 2 * twinkle else 0)\<close> with
  \<open>twinkle = sin (5 t + phase)\<close>. The factor lies in \<open>[1.5, 3.5]\<close> and is exactly 1.5
  when the twinkle is at most 0.5, so every positive component of the base colour is
  written strictly larger.
\<close>

theorem instance_color_factor:
  fixes state :: frame_state and hp :: heart_particles
  defines "twinkle \<equiv> \<lambda>k. sin (elapsedTime state * 5 + phase (data hp ! k))"
  defines "intensity \<equiv> \<lambda>k. 1.5 + (if twinkle k > 0.5 then twinkle k * 2 else 0)"
  assumes "meshRef hp = Some mesh" and "k < length (data hp)" and "k < length (colorBuffer mesh)"
  shows "\<exists>mesh' cs.
           meshRef (useFrame_HeartParticles isExploded state delta rnd hp) = Some mesh'
         \<and> instanceColor mesh' = Some cs \<and> k < length cs
         \<and> cs ! k = Color_multiplyScalar (color (data hp ! k)) (intensity k)
         \<and> 1.5 \<le> intensity k \<and> intensity k \<le> 3.5
         \<and> (twinkle k \<le> 0.5 \<longrightarrow> intensity k = 1.5)
         \<and> (0 < cr (color (data hp ! k)) \<longrightarrow> cr (color (data hp ! k)) < cr (cs ! k))
         \<and> (0 < cg (color (data hp ! k)) \<longrightarrow> cg (color (data hp ! k)) < cg (cs ! k))
         \<and> (0 < cb (color (data hp ! k)) \<longrightarrow> cb (color (data hp ! k)) < cb (cs ! k))"
proof -
  let ?sm = "((mem hp)(camLocalPos (scr hp) := worldToLocal state (camera_position state)), mesh)"
  let ?r = "forEach (\<lambda>d i. particle_frame isExploded state delta
                                  (if isExploded then 3 else 6) (scr hp) (rnd i) d i)
                  (data hp) 0 ?sm"
  let ?cs = "colorBuffer (snd ?r)"
  have ne: "data hp \<noteq> []" using assms(4) by auto
  from useFrame_instanceColor [OF assms(3) ne, of isExploded state delta rnd]
  obtain mesh' where m: "meshRef (useFrame_HeartParticles isExploded state delta rnd hp) = Some mesh'"
    and c: "instanceColor mesh' = Some ?cs" by blast
  have len: "k < length ?cs" using assms(5) by (simp add: forEach_colorBuffer_length)
  have "?cs ! (0 + k) = Color_multiplyScalar (color (data hp ! k)) (intensity k)"
    unfolding intensity_def twinkle_def
    using assms(4,5) by (intro forEach_colorBuffer_nth) simp_all
  then have nth: "?cs ! k = Color_multiplyScalar (color (data hp ! k)) (intensity k)" by simp
  have tw: "twinkle k \<le> 1" unfolding twinkle_def by (rule sin_le_one)
  have lo: "1.5 \<le> intensity k" unfolding intensity_def by simp
  have hi: "intensity k \<le> 3.5" unfolding intensity_def using tw by simp
  have ex: "twinkle k \<le> 0.5 \<longrightarrow> intensity k = 1.5" unfolding intensity_def by simp
  have gt: "x < x * intensity k" if "0 < x" for x :: real
  proof -
    have "x * 1 < x * intensity k" using that lo by (intro mult_strict_left_mono) simp_all
    then show ?thesis by simp
  qed
  have r: "0 < cr (color (data hp ! k)) \<longrightarrow> cr (color (data hp ! k)) < cr (?cs ! k)"
    unfolding nth by (simp add: Color_multiplyScalar_def gt)
  have g: "0 < cg (color (data hp ! k)) \<longrightarrow> cg (color (data hp ! k)) < cg (?cs ! k)"
    unfolding nth by (simp add: Color_multiplyScalar_def gt)
  have b: "0 < cb (color (data hp ! k)) \<longrightarrow> cb (color (data hp ! k)) < cb (?cs ! k)"
    unfolding nth by (simp add: Color_multiplyScalar_def gt)
  from m c len nth lo hi ex r g b show ?thesis by blast
qed

theorem instance_color_factor_witness:
  "\<exists>mesh' cs.
      meshRef (useFrame_HeartParticles False demo_state (1 / 60) (\<lambda>i. 1 / 2) displaced_particles)
        = Some mesh'
    \<and> instanceColor mesh' = Some cs \<and> 0 < length cs
    \<and> cs ! 0 = Color (3 / 2) (3 / 4) (3 / 8)"
proof -
  note f = displaced_particles_facts
  have k: "0 < length (data displaced_particles)" using f(3) by simp
  have l: "0 < length (colorBuffer \<lparr>instanceMatrix = [(Vector3 0 0 0, (0, 0, 0), Vector3 1 1 1)],
             instanceMatrix_needsUpdate = False,
             instanceColor = None,
             instanceColor_needsUpdate = False\<rparr>)"
    by (simp add: colorBuffer_def)
  from instance_color_factor [OF f(2) k l, of False demo_state "1 / 60" "\<lambda>i. 1 / 2"]
  obtain mesh' cs where
    m: "meshRef (useFrame_HeartParticles False demo_state (1 / 60) (\<lambda>i. 1 / 2) displaced_particles)
        = Some mesh'"
    and c: "instanceColor mesh' = Some cs" and len: "0 < length cs"
    and nth: "cs ! 0 = Color_multiplyScalar (color (data displaced_particles ! 0))
        (1.5 + (if sin (elapsedTime demo_state * 5 + phase (data displaced_particles ! 0)) > 0.5
                then sin (elapsedTime demo_state * 5 + phase (data displaced_particles ! 0)) * 2 else 0))"
    by blast
  have "cs ! 0 = Color (3 / 2) (3 / 4) (3 / 8)"
    unfolding nth f by (simp add: demo_state_def Color_multiplyScalar_def)
  with m c len show ?thesis by blast
qed

subsection \<open>The fixed target of a scatter particle\<close>











subsection \<open>The interpolation step\<close>

text \<open>
  Claim C3. On a mounted mesh, one frame moves every particle's current position, in each
  coordinate, from its old value \<open>p\<close> to \<open>p + (t - p) * factor\<close>, where \<open>t\<close> is the
  frame's desired position (home when gathered; the archetype's position plus the
  oscillation when exploded) and the factor is \<open>delta * speed * (0.8 + r * 0.4)\<close>, with
  \<open>r\<close> the value of \<open>Math.random()\<close> for that particle, which lies in \<open>[0, 1)\<close>, and
  \<open>speed\<close> 3 when exploded and 6 when gathered.
\<close>

theorem frame_lerp_toward_target:
  assumes "separated hp" and "meshRef hp = Some mesh" and "k < length (data hp)"
    and "0 \<le> rnd k" and "rnd k < 1"
  shows "\<exists>r t p. r = rnd k \<and> 0 \<le> r \<and> r < 1
       \<and> p = mem hp (currentPos (data hp ! k))
       \<and> (\<not> isExploded \<longrightarrow> t = mem hp (home (data hp ! k)))
       \<and> (isExploded \<longrightarrow>
            t = (let b = (case type (data hp ! k) of
                            front \<Rightarrow> worldToLocal state
                               (Vector3_add (Vector3_applyQuaternion (mem hp (offset (data hp ! k)))
                                               (camera_quaternion state))
                                            (camera_position state))
                          | surround \<Rightarrow> Vector3_add (worldToLocal state (camera_position state))
                                          (mem hp (offset (data hp ! k)))
                          | scatter \<Rightarrow> mem hp (fixedTarget (data hp ! k)))
                 in Vector3 (vx b + cos (elapsedTime state * 0.5 + real k * 0.1) * 0.1)
                            (vy b + sin (elapsedTime state + real k * 0.1) * 0.2)
                            (vz b)))
       \<and> mem (useFrame_HeartParticles isExploded state delta rnd hp) (currentPos (data hp ! k))
         = Vector3 (vx p + (vx t - vx p) * (delta * (if isExploded then 3 else 6) * (0.8 + r * 0.4)))
                   (vy p + (vy t - vy p) * (delta * (if isExploded then 3 else 6) * (0.8 + r * 0.4)))
                   (vz p + (vz t - vz p) * (delta * (if isExploded then 3 else 6) * (0.8 + r * 0.4)))
       \<and> mem (useFrame_HeartParticles isExploded state delta rnd hp) (currentPos (data hp ! k))
         = Vector3_lerp p t (delta * (if isExploded then 3 else 6) * (0.8 + r * 0.4))"
proof -
  let ?t = "desired_position isExploded state (data hp ! k) k (mem hp)"
  let ?p = "mem hp (currentPos (data hp ! k))"
  let ?f = "delta * (if isExploded then 3 else 6) * (0.8 + rnd k * 0.4)"
  note step = useFrame_currentPos [OF assms(1-3), of isExploded state delta rnd]
  have g: "\<not> isExploded \<longrightarrow> ?t = mem hp (home (data hp ! k))"
    by (simp add: desired_position_def)
  have e: "isExploded \<longrightarrow>
            ?t = (let b = (case type (data hp ! k) of
                            front \<Rightarrow> worldToLocal state
                               (Vector3_add (Vector3_applyQuaternion (mem hp (offset (data hp ! k)))
                                               (camera_quaternion state))
                                            (camera_position state))
                          | surround \<Rightarrow> Vector3_add (worldToLocal state (camera_position state))
                                          (mem hp (offset (data hp ! k)))
                          | scatter \<Rightarrow> mem hp (fixedTarget (data hp ! k)))
                 in Vector3 (vx b + cos (elapsedTime state * 0.5 + real k * 0.1) * 0.1)
                            (vy b + sin (elapsedTime state + real k * 0.1) * 0.2)
                            (vz b))"
    by (simp add: desired_position_def oscillate_def Let_def)
  have c: "mem (useFrame_HeartParticles isExploded state delta rnd hp) (currentPos (data hp ! k))
         = Vector3 (vx ?p + (vx ?t - vx ?p) * ?f) (vy ?p + (vy ?t - vy ?p) * ?f)
                   (vz ?p + (vz ?t - vz ?p) * ?f)"
    unfolding step by (simp add: Vector3_lerp_def)
  from assms(4,5) g e c step show ?thesis by blast
qed

theorem frame_lerp_toward_target_witness:
  "mem (useFrame_HeartParticles False demo_state (1 / 10) (\<lambda>i. 1 / 2) displaced_particles) 3
     = Vector3 (2 / 5) 0 0
   \<and> mem (useFrame_HeartParticles True demo_state (1 / 10) (\<lambda>i. 1 / 2) displaced_particles) 3
     = Vector3 (73 / 100) (12 / 5) 0"
proof -
  note f = displaced_particles_facts
  have k: "0 < length (data displaced_particles)" using f(3) by simp
  have r: "0 \<le> (\<lambda>i::nat. 1 / 2 :: real) 0" "(\<lambda>i::nat. 1 / 2 :: real) 0 < 1" by simp_all
  from frame_lerp_toward_target [OF f(1) f(2) k r, of False demo_state "1 / 10"]
  obtain r1 t1 p1 where a: "r1 = (1 / 2 :: real)"
      "p1 = mem displaced_particles (currentPos (data displaced_particles ! 0))"
      "\<not> False \<longrightarrow> t1 = mem displaced_particles (home (data displaced_particles ! 0))"
    and m1: "mem (useFrame_HeartParticles False demo_state (1 / 10) (\<lambda>i. 1 / 2) displaced_particles)
           (currentPos (data displaced_particles ! 0))
         = Vector3 (vx p1 + (vx t1 - vx p1) * (1 / 10 * (if False then 3 else 6) * (0.8 + r1 * 0.4)))
                   (vy p1 + (vy t1 - vy p1) * (1 / 10 * (if False then 3 else 6) * (0.8 + r1 * 0.4)))
                   (vz p1 + (vz t1 - vz p1) * (1 / 10 * (if False then 3 else 6) * (0.8 + r1 * 0.4)))"
    by blast
  from a have a': "r1 = 1 / 2" "p1 = Vector3 1 0 0" "t1 = Vector3 0 0 0"
    unfolding f by simp_all
  have 1: "mem (useFrame_HeartParticles False demo_state (1 / 10) (\<lambda>i. 1 / 2) displaced_particles) 3
     = Vector3 (2 / 5) 0 0"
    using m1 unfolding a' f by simp
  from frame_lerp_toward_target [OF f(1) f(2) k r, of True demo_state "1 / 10"]
  obtain r2 t2 p2 where b: "r2 = (1 / 2 :: real)"
      "p2 = mem displaced_particles (currentPos (data displaced_particles ! 0))"
      "True \<longrightarrow>
            t2 = (let b = (case type (data displaced_particles ! 0) of
                            front \<Rightarrow> worldToLocal demo_state
                               (Vector3_add (Vector3_applyQuaternion (mem displaced_particles (offset (data displaced_particles ! 0)))
                                               (camera_quaternion demo_state))
                                            (camera_position demo_state))
                          | surround \<Rightarrow> Vector3_add (worldToLocal demo_state (camera_position demo_state))
                                          (mem displaced_particles (offset (data displaced_particles ! 0)))
                          | scatter \<Rightarrow> mem displaced_particles (fixedTarget (data displaced_particles ! 0)))
                 in Vector3 (vx b + cos (elapsedTime demo_state * 0.5 + real (0::nat) * 0.1) * 0.1)
                            (vy b + sin (elapsedTime demo_state + real (0::nat) * 0.1) * 0.2)
                            (vz b))"
    and m2: "mem (useFrame_HeartParticles True demo_state (1 / 10) (\<lambda>i. 1 / 2) displaced_particles)
           (currentPos (data displaced_particles ! 0))
         = Vector3 (vx p2 + (vx t2 - vx p2) * (1 / 10 * (if True then 3 else 6) * (0.8 + r2 * 0.4)))
                   (vy p2 + (vy t2 - vy p2) * (1 / 10 * (if True then 3 else 6) * (0.8 + r2 * 0.4)))
                   (vz p2 + (vz t2 - vz p2) * (1 / 10 * (if True then 3 else 6) * (0.8 + r2 * 0.4)))"
    by blast
  from b have b': "r2 = 1 / 2" "p2 = Vector3 1 0 0" "t2 = Vector3 (1 / 10) 8 0"
    unfolding f by (simp_all add: demo_state_def Let_def)
  have 2: "mem (useFrame_HeartParticles True demo_state (1 / 10) (\<lambda>i. 1 / 2) displaced_particles) 3
     = Vector3 (73 / 100) (12 / 5) 0"
    using m2 unfolding b' f by simp
  from 1 2 show ?thesis by (intro conjI)
qed

subsection \<open>Gathering from a displaced position\<close>





subsection \<open>The direction of a scatter particle\<close>











end
